theory Spec2Isabelle
  imports Main "HOL-Library.AList"
begin

section \<open>Strings and struct tags\<close>

text \<open>
  Go strings are byte sequences, modelled as \<^typ>\<open>string\<close>. The helpers of the standard
  library that the converter calls are modelled on ASCII input: \<open>strings.TrimSpace\<close> removes
  the six ASCII white-space bytes, \<open>strings.Split(v, ",")[0]\<close> is the part of \<open>v\<close> before its
  first comma, and \<open>strings.EqualFold\<close> compares after mapping \<open>A..Z\<close> to \<open>a..z\<close>.
\<close>

definition isSpace :: "char \<Rightarrow> bool" where
  "isSpace c = (of_char c \<in> {9, 10, 11, 12, 13, 32 :: nat})"

definition TrimSpace :: "string \<Rightarrow> string" where
  "TrimSpace s = rev (dropWhile isSpace (rev (dropWhile isSpace s)))"

text \<open>\<open>strings.Split(value, ",")[0]\<close>: the first item of the split is never missing.\<close>

definition SplitFirst :: "string \<Rightarrow> string" where
  "SplitFirst v = takeWhile (\<lambda>c. c \<noteq> CHR '','') v"

text \<open>
  Modelled from the spec: \<open>utils.IsLetterUpper\<close> lives in \<open>internal/utils\<close>, outside the
  files at hand; it decides which fields are "publicly accessible", that is, whose name starts
  with an upper-case ASCII letter.
\<close>

definition IsLetterUpper :: "char \<Rightarrow> bool" where
  "IsLetterUpper c = (65 \<le> (of_char c :: nat) \<and> (of_char c :: nat) \<le> 90)"

text \<open>\<open>utils.IsLetterUpper(fieldName[0])\<close>; a Go field name is never empty.\<close>

definition isPublic :: "string \<Rightarrow> bool" where
  "isPublic n = (case n of [] \<Rightarrow> False | c # _ \<Rightarrow> IsLetterUpper c)"

section \<open>Types as \<open>reflect\<close> shows them\<close>

text \<open>
  A \<open>reflect.Type\<close> is a finite tree: a struct type carries its name and its fields, a field
  carries its declared name, its type, its tag and whether it is embedded. A struct tag
  \<open>`json:"name" orm:"id"`\<close> is the list of its key/value pairs in the order written, and
  \<open>Tag.Lookup\<close> finds the first pair of a key.
\<close>

datatype gtype =
    TBasic string
  | TPtr gtype
  | TStruct string "sfield list"
  | TInterface string
and sfield =
    StructField (Name: string) (Type: gtype) (Tag: "(string \<times> string) list") (Anonymous: bool)

datatype kind = Struct | Ptr | Interface | Other

fun Kind :: "gtype \<Rightarrow> kind" where
  "Kind (TBasic _) = Other"
| "Kind (TPtr _) = Ptr"
| "Kind (TStruct _ _) = Struct"
| "Kind (TInterface _) = Interface"

fun Elem :: "gtype \<Rightarrow> gtype" where
  "Elem (TPtr t) = t"
| "Elem t = t"

text \<open>The type of a field is a proper part of the field.\<close>

lemma size_Type [termination_simp]: "size (Type f) < Suc (size f + n)"
  by (cases f) simp

lemma size_Elem [termination_simp]: "size (Elem t) \<le> size t"
  by (cases t) simp_all

fun TypeString :: "gtype \<Rightarrow> string" where
  "TypeString (TBasic n) = n"
| "TypeString (TPtr t) = CHR ''*'' # TypeString t"
| "TypeString (TStruct n _) = n"
| "TypeString (TInterface n) = n"

definition Lookup :: "(string \<times> string) list \<Rightarrow> string \<Rightarrow> string option" where
  "Lookup tag key = map_of tag key"

section \<open>Tag resolution\<close>

text \<open>
  \<open>getTag\<close> is the closure of \<open>doStruct\<close> (the path without cache): the first tag of the
  priority list that the field carries decides, whatever its name part is.
\<close>

fun getTag :: "sfield \<Rightarrow> string list \<Rightarrow> string" where
  "getTag field [] = []"
| "getTag field (tag # priorityTags) =
     (case Lookup (Tag field) tag of
        Some v \<Rightarrow> TrimSpace (SplitFirst v)
      | None \<Rightarrow> getTag field priorityTags)"

text \<open>
  \<open>genPriorityTagAndFieldName\<close> is the cache path: a tag whose name part is empty
  (\<open>json:",omitempty"\<close>) is passed over and the scan goes on; the declared name is appended last.
  \<open>priorityTagName\<close> is the loop, \<open>None\<close> when it ends without a \<open>break\<close>.
\<close>

fun priorityTagName :: "sfield \<Rightarrow> string list \<Rightarrow> string option" where
  "priorityTagName field [] = None"
| "priorityTagName field (tag # priorityTags) =
     (case Lookup (Tag field) tag of
        Some v \<Rightarrow>
          (let trimmedTagName = TrimSpace (SplitFirst v)
           in if trimmedTagName \<noteq> [] then Some trimmedTagName
              else priorityTagName field priorityTags)
      | None \<Rightarrow> priorityTagName field priorityTags)"

definition genPriorityTagAndFieldName :: "sfield \<Rightarrow> string list \<Rightarrow> string list" where
  "genPriorityTagAndFieldName field priorityTags =
     (case priorityTagName field priorityTags of
        Some t \<Rightarrow> [t, Name field]
      | None \<Rightarrow> [Name field])"


text \<open>
  The words of the specification about tags: a tag of the priority list is \<^emph>\<open>present\<close> on a
  field when the field carries it; its \<^emph>\<open>name part\<close> is its value up to the first comma,
  trimmed; the highest-priority present tag is the first present one of the list.
\<close>

definition present :: "sfield \<Rightarrow> string \<Rightarrow> bool" where
  "present field t = (Lookup (Tag field) t \<noteq> None)"

definition tagName :: "sfield \<Rightarrow> string \<Rightarrow> string" where
  "tagName field t = (case Lookup (Tag field) t of None \<Rightarrow> [] | Some v \<Rightarrow> TrimSpace (SplitFirst v))"

definition firstPresent :: "sfield \<Rightarrow> string list \<Rightarrow> string option" where
  "firstPresent field tags = find (present field) tags"

definition firstNamed :: "sfield \<Rightarrow> string list \<Rightarrow> string option" where
  "firstNamed field tags = find (\<lambda>t. tagName field t \<noteq> []) tags"

text \<open>
  What \<open>doStruct\<close> records as the match key of a field (\<open>fieldInfo.tag\<close>): an embedded field
  is recorded only under a tag name; any other field falls back to its declared name.
\<close>

definition recordedTag :: "sfield \<Rightarrow> string list \<Rightarrow> string option" where
  "recordedTag field priorityTagArray =
     (let fieldTag = getTag field priorityTagArray
      in if Anonymous field then (if fieldTag \<noteq> [] then Some fieldTag else None)
         else Some (if fieldTag = [] then Name field else fieldTag))"

section \<open>The cached descriptors\<close>

text \<open>
  Modelled from the spec: \<open>utils.RemoveSymbols\<close> lives in \<open>internal/utils\<close>, outside the files
  at hand. It strips the separator symbols of a name for the fuzzy comparison: of the ASCII
  bytes only letters and digits stay, every other byte stays as it is.
\<close>

definition isAlnum :: "char \<Rightarrow> bool" where
  "isAlnum c =
     (let n = (of_char c :: nat)
      in (48 \<le> n \<and> n \<le> 57) \<or> (65 \<le> n \<and> n \<le> 90) \<or> (97 \<le> n \<and> n \<le> 122) \<or> 127 < n)"

definition RemoveSymbols :: "string \<Rightarrow> string" where
  "RemoveSymbols s = filter isAlnum s"

text \<open>
  Modelled from the spec: \<open>utils.SplitAndTrim\<close> lives in \<open>internal/utils\<close> too. The priority
  tag of a call "supports multiple tags that can be joined with char ','": the string is cut at
  every comma, each item is trimmed, and the empty items are dropped.
\<close>

fun splitOn :: "char \<Rightarrow> string \<Rightarrow> string list" where
  "splitOn d [] = [[]]"
| "splitOn d (c # cs) =
     (if c = d then [] # splitOn d cs
      else (case splitOn d cs of [] \<Rightarrow> [[c]] | w # ws \<Rightarrow> (c # w) # ws))"

definition SplitAndTrim :: "string \<Rightarrow> char \<Rightarrow> string list" where
  "SplitAndTrim str delimiter = filter (\<lambda>w. w \<noteq> []) (map TrimSpace (splitOn delimiter str))"

text \<open>
  A precompiled converter closure is named by what it does; \<open>genPtrConvertFunc\<close> wraps the
  converter of the pointed type.
\<close>

datatype convertFunc =
    ConvInt | ConvUint | ConvString | ConvFloat32 | ConvFloat64
  | ConvTime | ConvGTime | ConvBool | ConvBytes
  | genPtrConvertFunc convertFunc

text \<open>
  \<open>genFieldConvertFunc\<close> reads the printed type name. The name of a type is never empty, so
  the read of \<open>fieldType[0]\<close> is always in range; on the empty string the model answers
  \<open>None\<close> (no converter).
\<close>

fun genFieldConvertFunc :: "string \<Rightarrow> convertFunc option" where
  "genFieldConvertFunc [] = None"
| "genFieldConvertFunc (c # cs) =
     (if c = CHR ''*'' then
        (case genFieldConvertFunc cs of
           None \<Rightarrow> None
         | Some convertFunc \<Rightarrow> Some (genPtrConvertFunc convertFunc))
      else if c # cs \<in> {''int'', ''int8'', ''int16'', ''int32'', ''int64''} then Some ConvInt
      else if c # cs \<in> {''uint'', ''uint8'', ''uint16'', ''uint32'', ''uint64''} then Some ConvUint
      else if c # cs = ''string'' then Some ConvString
      else if c # cs = ''float32'' then Some ConvFloat32
      else if c # cs = ''float64'' then Some ConvFloat64
      else if c # cs \<in> {''Time'', ''time.Time''} then Some ConvTime
      else if c # cs \<in> {''GTime'', ''gtime.Time''} then Some ConvGTime
      else if c # cs = ''bool'' then Some ConvBool
      else if c # cs = ''[]byte'' then Some ConvBytes
      else None)"

text \<open>
  What a type implements and which types have a custom converter registered is outside the
  files at hand: \<open>Implements\<close> and \<open>customConvTypeMap\<close> are parameters, and so is the default
  tag priority \<open>gtag.StructTagPriority\<close>. \<open>growslice\<close> is the runtime's choice of a capacity
  when \<open>append\<close> finds a slice of the given capacity full.
\<close>

datatype iface = iUnmarshalText | iUnmarshalJSON | iUnmarshalValue

record env =
  StructTagPriority :: "string list"
  Implements :: "gtype \<Rightarrow> iface \<Rightarrow> bool"
  customConvTypeMap :: "gtype \<Rightarrow> bool"
  growslice :: "nat \<Rightarrow> nat"

definition checkTypeIsImplCommonInterface :: "env \<Rightarrow> sfield \<Rightarrow> bool" where
  "checkTypeIsImplCommonInterface E field =
     (if TypeString (Type field) \<in> {''time.Time'', ''*time.Time'', ''gtime.Time'', ''*gtime.Time''}
      then False
      else
        (let t = (if Kind (Type field) \<noteq> Ptr then TPtr (Type field) else Type field)
         in Implements E t iUnmarshalText \<or> Implements E t iUnmarshalJSON
            \<or> Implements E t iUnmarshalValue))"

definition checkTypeMaybeIsCustomConvert :: "env \<Rightarrow> gtype \<Rightarrow> bool" where
  "checkTypeMaybeIsCustomConvert E fieldType =
     customConvTypeMap E (if Kind fieldType = Ptr then Elem fieldType else fieldType)"

text \<open>
  An index path is a Go slice \<open>[]int\<close>: a backing array, of which the slice sees the first
  \<open>slen\<close> entries; the length of the array is the capacity. The backing arrays live in a store,
  \<open>arrays\<close>, and two slices with the same backing array share what is written to it.
  \<open>append(s, x)\<close> writes \<open>x\<close> behind the slice when the capacity allows and copies the slice to
  a new array when it does not.
\<close>

record slice =
  backing :: nat
  slen :: nat

definition appendInt :: "env \<Rightarrow> slice \<Rightarrow> nat \<Rightarrow> nat list list \<Rightarrow> slice \<times> nat list list" where
  "appendInt E s x A =
     (let old = A ! backing s
      in if slen s < length old
         then (s\<lparr>slen := Suc (slen s)\<rparr>, A[backing s := old[slen s := x]])
         else (\<lparr>backing = length A, slen = Suc (slen s)\<rparr>,
               A @ [take (slen s) old @ x #
                    replicate (max (growslice E (length old)) (Suc (slen s)) - Suc (slen s)) 0]))"

definition indexPath :: "nat list list \<Rightarrow> slice \<Rightarrow> nat list" where
  "indexPath A s = take (slen s) (A ! backing s)"

text \<open>
  \<open>cachedFieldInfoBase\<close> is shared by pointer between the entries of one field (one per match
  key), so the bases live in a store of the struct info, \<open>bases\<close>, and an entry holds the
  position of its base there.
\<close>

record cachedFieldInfoBase =
  fieldIndexes :: slice
  priorityTagAndFieldName :: "string list"
  isCommonInterface :: bool
  isCustomConvert :: bool
  structField :: sfield
  otherSameNameFieldIndex :: "slice list"
  convertFunc :: "convertFunc option"

record cachedFieldInfo =
  base :: nat
  lastFuzzKey :: string
  isField :: bool
  removeSymbolsFieldName :: string

record cachedStructInfo =
  bases :: "cachedFieldInfoBase list"
  arrays :: "nat list list"
  tagOrFiledNameToFieldInfoMap :: "(string \<times> cachedFieldInfo) list"
  fieldConvertInfos :: "cachedFieldInfo list"

definition newCachedStructInfo :: cachedStructInfo where
  "newCachedStructInfo =
     \<lparr>bases = [], arrays = [], tagOrFiledNameToFieldInfoMap = [], fieldConvertInfos = []\<rparr>"

definition HasNoFields :: "cachedStructInfo \<Rightarrow> bool" where
  "HasNoFields csi = (length (tagOrFiledNameToFieldInfoMap csi) = 0)"

definition GetFieldInfo :: "cachedStructInfo \<Rightarrow> string \<Rightarrow> cachedFieldInfo option" where
  "GetFieldInfo csi fieldName = map_of (tagOrFiledNameToFieldInfoMap csi) fieldName"

text \<open>\<open>FieldName\<close> reads the last match key; on an empty list Go would panic.\<close>

definition FieldName :: "cachedFieldInfoBase \<Rightarrow> string option" where
  "FieldName cfi =
     (if priorityTagAndFieldName cfi = [] then None
      else Some (priorityTagAndFieldName cfi ! (length (priorityTagAndFieldName cfi) - 1)))"

text \<open>The index paths of the descriptors as they read in the end, base by base.\<close>

definition fieldPaths :: "cachedStructInfo \<Rightarrow> nat list list" where
  "fieldPaths csi = map (\<lambda>b. indexPath (arrays csi) (fieldIndexes b)) (bases csi)"

definition duplicatePaths :: "cachedStructInfo \<Rightarrow> nat list list list" where
  "duplicatePaths csi =
     map (\<lambda>b. map (indexPath (arrays csi)) (otherSameNameFieldIndex b)) (bases csi)"

text \<open>The body of the loop over the match keys in \<open>AddField\<close>; \<open>b\<close> is the new base.\<close>

definition addEntry :: "sfield \<Rightarrow> nat \<Rightarrow> string \<Rightarrow> cachedStructInfo \<Rightarrow> cachedStructInfo" where
  "addEntry field b tagOrFieldName csi =
     (let newFieldInfo =
            \<lparr>base = b, lastFuzzKey = Name field, isField = (tagOrFieldName = Name field),
             removeSymbolsFieldName = RemoveSymbols (Name field)\<rparr>;
          csi' = csi\<lparr>tagOrFiledNameToFieldInfoMap :=
                       AList.update tagOrFieldName newFieldInfo (tagOrFiledNameToFieldInfoMap csi)\<rparr>
      in if isField newFieldInfo
         then csi'\<lparr>fieldConvertInfos := fieldConvertInfos csi' @ [newFieldInfo]\<rparr>
         else csi')"

definition AddField ::
  "env \<Rightarrow> sfield \<Rightarrow> slice \<Rightarrow> string list \<Rightarrow> cachedStructInfo \<Rightarrow> cachedStructInfo" where
  "AddField E field fieldIdx priorityTags csi =
     (case map_of (tagOrFiledNameToFieldInfoMap csi) (Name field) of
        None \<Rightarrow>
          (let baseInfo =
                 \<lparr>fieldIndexes = fieldIdx,
                  priorityTagAndFieldName = genPriorityTagAndFieldName field priorityTags,
                  isCommonInterface = checkTypeIsImplCommonInterface E field,
                  isCustomConvert = checkTypeMaybeIsCustomConvert E (Type field),
                  structField = field,
                  otherSameNameFieldIndex = [],
                  convertFunc = genFieldConvertFunc (TypeString (Type field))\<rparr>;
               b = length (bases csi)
           in fold (addEntry field b) (priorityTagAndFieldName baseInfo)
                (csi\<lparr>bases := bases csi @ [baseInfo]\<rparr>))
      | Some alreadyExistFieldInfo \<Rightarrow>
          (let b = base alreadyExistFieldInfo;
               old = bases csi ! b
           in csi\<lparr>bases := (bases csi)
                 [b := old\<lparr>otherSameNameFieldIndex := otherSameNameFieldIndex old @ [fieldIdx]\<rparr>]\<rparr>))"

text \<open>
  \<open>parseStruct\<close> walks the fields of a struct type; \<open>parseFields\<close> is its loop from position
  \<open>i\<close> on. Each \<open>append(fieldIndexes, i)\<close> of the source is one \<open>appendInt\<close>. A type that
  embeds itself through a pointer is not a finite tree: on such a type the Go function does
  not return, and the model has no such type.
\<close>

function (sequential) parseStruct ::
  "env \<Rightarrow> gtype \<Rightarrow> slice \<Rightarrow> cachedStructInfo \<Rightarrow> string list \<Rightarrow> cachedStructInfo"
and parseFields ::
  "env \<Rightarrow> sfield list \<Rightarrow> nat \<Rightarrow> slice \<Rightarrow> cachedStructInfo \<Rightarrow> string list \<Rightarrow> cachedStructInfo"
where
  "parseStruct E (TStruct n fs) fieldIdx structInfo priorityTagArray =
     parseFields E fs 0 fieldIdx structInfo priorityTagArray"
| "parseStruct E (TBasic n) fieldIdx structInfo priorityTagArray = structInfo"
| "parseStruct E (TPtr t) fieldIdx structInfo priorityTagArray = structInfo"
| "parseStruct E (TInterface n) fieldIdx structInfo priorityTagArray = structInfo"
| "parseFields E [] i fieldIdx structInfo priorityTagArray = structInfo"
| "parseFields E (sf # fs) i fieldIdx structInfo priorityTagArray =
     (if \<not> isPublic (Name sf)
      then parseFields E fs (Suc i) fieldIdx structInfo priorityTagArray
      else
        (case appendInt E fieldIdx i (arrays structInfo) of
           (idx1, A1) \<Rightarrow>
             (let stored = AddField E sf idx1 priorityTagArray (structInfo\<lparr>arrays := A1\<rparr>)
              in if Anonymous sf then
                   (let fieldType = (if Kind (Type sf) = Ptr then Elem (Type sf) else Type sf)
                    in if Kind fieldType \<noteq> Struct
                       then parseFields E fs (Suc i) fieldIdx stored priorityTagArray
                       else
                         (case appendInt E fieldIdx i (arrays stored) of
                            (idx2, A2) \<Rightarrow>
                              parseFields E fs (Suc i) fieldIdx
                                (parseStruct E fieldType idx2 (stored\<lparr>arrays := A2\<rparr>)
                                   priorityTagArray)
                                priorityTagArray))
                 else parseFields E fs (Suc i) fieldIdx stored priorityTagArray)))"
  by pat_completeness auto
termination
  apply (relation "measure (\<lambda>x. case x of
            Inl (E, t, r) \<Rightarrow> size t
          | Inr (E, fs, r) \<Rightarrow> size_list size fs)")
        apply simp_all
  subgoal for E sf fs
    using size_Type [of sf "size_list size fs"] size_Elem [of "Type sf"] by simp
  done

section \<open>The cache of struct infos\<close>

text \<open>
  \<open>cachedStructsInfoMap\<close> is a \<open>sync.Map\<close> from \<open>reflect.Type\<close> to the struct info; the state
  of the process, as far as the cache goes, is this map.
\<close>

type_synonym cache = "gtype \<rightharpoonup> cachedStructInfo"

definition setCachedConvertStructInfo :: "gtype \<Rightarrow> cachedStructInfo \<Rightarrow> cache \<Rightarrow> cache" where
  "setCachedConvertStructInfo structType info C = C(structType \<mapsto> info)"

definition getCachedConvertStructInfo :: "cache \<Rightarrow> gtype \<Rightarrow> cachedStructInfo option" where
  "getCachedConvertStructInfo C structType = C structType"

text \<open>The tag priority of a call, as \<open>getCachedStructInfo\<close> and \<open>doStruct\<close> both compute it.\<close>

definition priorityTagArrayOf :: "env \<Rightarrow> string \<Rightarrow> string list" where
  "priorityTagArrayOf E priorityTag =
     (if priorityTag \<noteq> [] then SplitAndTrim priorityTag CHR '','' @ StructTagPriority E
      else StructTagPriority E)"

text \<open>
  \<open>getCachedStructInfo\<close> returns the struct info (\<open>None\<close> for Go's \<open>nil\<close>) and the cache it
  leaves behind. \<open>parentIndex\<close> is \<open>make([]int, 0)\<close>: the empty slice of an empty array.
\<close>

definition getCachedStructInfo ::
  "env \<Rightarrow> cache \<Rightarrow> gtype \<Rightarrow> string \<Rightarrow> cachedStructInfo option \<times> cache" where
  "getCachedStructInfo E C structType priorityTag =
     (if Kind structType \<noteq> Struct then (None, C)
      else
        (case getCachedConvertStructInfo C structType of
           Some structInfo \<Rightarrow> (Some structInfo, C)
         | None \<Rightarrow>
             (let parentIndex = \<lparr>backing = 0, slen = 0\<rparr>;
                  structInfo =
                    parseStruct E structType parentIndex (newCachedStructInfo\<lparr>arrays := [[]]\<rparr>)
                      (priorityTagArrayOf E priorityTag)
              in (Some structInfo, setCachedConvertStructInfo structType structInfo C))))"

text \<open>
  The specification's "fresh build" for a destination type and the priority tag of a call, and
  a run of requests to the cache, one after the other.
\<close>

definition freshBuild :: "env \<Rightarrow> gtype \<Rightarrow> string \<Rightarrow> cachedStructInfo" where
  "freshBuild E structType priorityTag =
     parseStruct E structType \<lparr>backing = 0, slen = 0\<rparr> (newCachedStructInfo\<lparr>arrays := [[]]\<rparr>)
       (priorityTagArrayOf E priorityTag)"

fun requests ::
  "env \<Rightarrow> cache \<Rightarrow> (gtype \<times> string) list \<Rightarrow> cachedStructInfo option list \<times> cache" where
  "requests E C [] = ([], C)"
| "requests E C ((structType, priorityTag) # rs) =
     (case getCachedStructInfo E C structType priorityTag of
        (r, C') \<Rightarrow> (case requests E C' rs of (out, C'') \<Rightarrow> (r # out, C'')))"

text \<open>A key is registered in a struct info when the table has an entry under it.\<close>

definition registered :: "cachedStructInfo \<Rightarrow> string \<Rightarrow> bool" where
  "registered csi k = (GetFieldInfo csi k \<noteq> None)"

section \<open>Example inputs\<close>

text \<open>
  The environment of the examples: the default tag priority of the library, no type with an
  unmarshalling interface, no custom converter, and the growth of a small slice in the Go
  runtime, which doubles the capacity (1, 2, 4, 8).
\<close>

definition exEnv :: env where
  "exEnv = \<lparr>StructTagPriority = [''gconv'', ''param'', ''c'', ''p'', ''json''],
            Implements = (\<lambda>t i. False), customConvTypeMap = (\<lambda>t. False),
            growslice = (\<lambda>c. if c = 0 then 1 else 2 * c)\<rparr>"

text \<open>\<open>type Tagged struct { A string `a:"x" b:"y"` }\<close>\<close>

definition exTagged :: gtype where
  "exTagged = TStruct ''main.Tagged''
     [StructField ''A'' (TBasic ''string'') [(''a'', ''x''), (''b'', ''y'')] False]"

text \<open>\<open>type Base struct { ID int }\<close> and \<open>type Outer struct { Base; Name string }\<close>\<close>

definition exBase :: gtype where
  "exBase = TStruct ''main.Base'' [StructField ''ID'' (TBasic ''int'') [] False]"

definition exOuter :: gtype where
  "exOuter = TStruct ''main.Outer''
     [StructField ''Base'' exBase [] True, StructField ''Name'' (TBasic ''string'') [] False]"

text \<open>
  \<open>type First struct { ID int }\<close>, \<open>type Second struct { ID int }\<close> and
  \<open>type Shadow struct { Uid int `json:"ID"`; First; Second }\<close>
\<close>

definition exShadow :: gtype where
  "exShadow = TStruct ''main.Shadow''
     [StructField ''Uid'' (TBasic ''int'') [(''json'', ''ID'')] False,
      StructField ''First'' (TStruct ''main.First'' [StructField ''ID'' (TBasic ''int'') [] False]) [] True,
      StructField ''Second'' (TStruct ''main.Second'' [StructField ''ID'' (TBasic ''int'') [] False]) [] True]"

text \<open>\<open>type Twice struct { First; Second }\<close>: the duplicate the cache is written for.\<close>

definition exTwice :: gtype where
  "exTwice = TStruct ''main.Twice''
     [StructField ''First'' (TStruct ''main.First'' [StructField ''ID'' (TBasic ''int'') [] False]) [] True,
      StructField ''Second'' (TStruct ''main.Second'' [StructField ''ID'' (TBasic ''int'') [] False]) [] True]"

section \<open>Values, errors and panics\<close>

text \<open>
  A source value (\<open>interface{}\<close>) is \<open>nil\<close>, a number, a string or a map with string keys. A
  Go map is the list of its entries with distinct keys; where the code ranges over a source
  map or over the caller's \<open>paramKeyToAttrMap\<close>, the order of the list stands for the order
  in which the runtime happens to visit the entries.
\<close>

datatype any = ANil | AInt int | AString string | AMap "(string \<times> any) list"

text \<open>
  An error of package \<open>gerror\<close> is built with a code and a format string; the printed
  arguments are kept beside the format. \<open>PlainError\<close> is an error value made elsewhere (by a
  user method, say), which has no stack.
\<close>

datatype gcode = CodeInvalidParameter | CodeInternalPanic

datatype gerror =
    NewCode gcode string
  | NewCodef gcode string "string list"
  | Wrapf gerror string "string list"
  | PlainError string

fun HasStack :: "gerror \<Rightarrow> bool" where
  "HasStack (PlainError m) = False"
| "HasStack e = True"

text \<open>What a panic carries: an error value, or anything else (printed).\<close>

datatype exn = PanicError gerror | PanicValue string

text \<open>A call returns or panics; either way it leaves a heap behind.\<close>

datatype 'a outcome = Return 'a | Panic exn

fun printError :: "gerror \<Rightarrow> string" where
  "printError (NewCode c m) = m"
| "printError (NewCodef c m args) = m"
| "printError (Wrapf e m args) = m @ '': '' @ printError e"
| "printError (PlainError m) = m"

definition printExn :: "exn \<Rightarrow> string" where
  "printExn x = (case x of PanicError e \<Rightarrow> printError e | PanicValue m \<Rightarrow> m)"

section \<open>The destination as \<open>reflect\<close> shows it\<close>

text \<open>
  The memory of the destination is a heap of cells, addressed by position. A cell is a
  variable or a field: of a pointer type it holds \<open>nil\<close> or the address of the cell pointed to;
  of a struct type, the addresses of its fields; of any other type, the value last assigned,
  with \<open>ANil\<close> for the zero value. An addressable, settable \<open>reflect.Value\<close> is a cell and its
  static type.
\<close>

datatype cell = CValue any | CPtr "nat option" | CStruct "nat list"

type_synonym heap = "cell list"

record rv =
  addr :: nat
  rtype :: gtype

definition readCell :: "heap \<Rightarrow> nat \<Rightarrow> cell option" where
  "readCell h a = (if a < length h then Some (h ! a) else None)"

definition writeCell :: "heap \<Rightarrow> nat \<Rightarrow> cell \<Rightarrow> heap" where
  "writeCell h a c = h[a := c]"

text \<open>\<open>reflect.New(t)\<close>: fresh cells holding the zero value of \<open>t\<close>; the address of the value.\<close>

fun allocZero :: "gtype \<Rightarrow> heap \<Rightarrow> nat \<times> heap"
and allocFields :: "sfield list \<Rightarrow> heap \<Rightarrow> nat list \<times> heap" where
  "allocZero (TBasic n) h = (length h, h @ [CValue ANil])"
| "allocZero (TInterface n) h = (length h, h @ [CValue ANil])"
| "allocZero (TPtr t) h = (length h, h @ [CPtr None])"
| "allocZero (TStruct n fs) h =
     (case allocFields fs h of (as, h') \<Rightarrow> (length h', h' @ [CStruct as]))"
| "allocFields [] h = ([], h)"
| "allocFields (f # fs) h =
     (case allocZero (Type f) h of
        (a, h') \<Rightarrow> (case allocFields fs h' of (as, h'') \<Rightarrow> (a # as, h'')))"

text \<open>\<open>v.Set(reflect.Zero(t))\<close> on the cell \<open>a\<close> of type \<open>t\<close>.\<close>

fun setZero :: "gtype \<Rightarrow> nat \<Rightarrow> heap \<Rightarrow> heap"
and setZeroFields :: "sfield list \<Rightarrow> nat list \<Rightarrow> heap \<Rightarrow> heap" where
  "setZero (TBasic n) a h = writeCell h a (CValue ANil)"
| "setZero (TInterface n) a h = writeCell h a (CValue ANil)"
| "setZero (TPtr t) a h = writeCell h a (CPtr None)"
| "setZero (TStruct n fs) a h =
     (case readCell h a of Some (CStruct as) \<Rightarrow> setZeroFields fs as h | _ \<Rightarrow> h)"
| "setZeroFields [] as h = h"
| "setZeroFields (f # fs) [] h = h"
| "setZeroFields (f # fs) (a # as) h = setZeroFields fs as (setZero (Type f) a h)"

text \<open>
  \<open>v.Field(i)\<close> panics unless \<open>v\<close> is a struct with a field \<open>i\<close>; \<open>v.IsNil()\<close> on a pointer;
  \<open>v.Elem()\<close> of a pointer that is not nil.
\<close>

definition FieldOf :: "rv \<Rightarrow> nat \<Rightarrow> heap \<Rightarrow> rv option" where
  "FieldOf v i h =
     (case rtype v of
        TStruct n fs \<Rightarrow>
          (case readCell h (addr v) of
             Some (CStruct as) \<Rightarrow>
               (if i < length fs \<and> i < length as
                then Some \<lparr>addr = as ! i, rtype = Type (fs ! i)\<rparr> else None)
           | _ \<Rightarrow> None)
      | _ \<Rightarrow> None)"

definition IsNil :: "rv \<Rightarrow> heap \<Rightarrow> bool" where
  "IsNil v h = (readCell h (addr v) = Some (CPtr None) \<or> readCell h (addr v) = Some (CValue ANil))"

definition ElemOf :: "rv \<Rightarrow> heap \<Rightarrow> rv option" where
  "ElemOf v h =
     (case readCell h (addr v) of
        Some (CPtr (Some b)) \<Rightarrow> Some \<lparr>addr = b, rtype = Elem (rtype v)\<rparr>
      | _ \<Rightarrow> None)"

text \<open>
  The \<open>pointer\<close> argument of \<open>doStruct\<close>: the untyped \<open>nil\<close>; an interface value of some type,
  which for a pointer type is \<open>nil\<close> or the address of the cell pointed to (for any other type
  only the type is read); or a \<open>reflect.Value\<close>, as the recursive calls pass it.
\<close>

datatype pointer =
    NilPointer
  | Iface gtype "nat option"
  | Reflect rv

section \<open>Reaching a field by its index path\<close>

text \<open>
  \<open>fieldReflectValue\<close> walks an index path from a struct value. From the second index on it
  first steps through a pointer, allocating when the pointer is \<open>nil\<close>; the value inside an
  interface is no struct in this model, so the \<open>Field\<close> after it panics. \<open>None\<close> is a panic
  of \<open>reflect\<close>. \<open>getFieldReflectValue\<close> and \<open>getOtherFieldReflectValue\<close> read the path of
  the descriptor and the path of one of its duplicates, \<open>A\<close> being the store of the arrays.
\<close>

definition throughPointer :: "rv \<Rightarrow> heap \<Rightarrow> rv option \<times> heap" where
  "throughPointer v h =
     (case Kind (rtype v) of
        Ptr \<Rightarrow>
          (if IsNil v h
           then (case allocZero (Elem (rtype v)) h of
                   (e, h') \<Rightarrow>
                     (Some \<lparr>addr = e, rtype = Elem (rtype v)\<rparr>,
                      writeCell h' (addr v) (CPtr (Some e))))
           else (ElemOf v h, h))
      | Interface \<Rightarrow> (None, h)
      | _ \<Rightarrow> (Some v, h))"

fun fieldReflectValueFrom :: "bool \<Rightarrow> rv \<Rightarrow> nat list \<Rightarrow> heap \<Rightarrow> rv option \<times> heap" where
  "fieldReflectValueFrom later v [] h = (Some v, h)"
| "fieldReflectValueFrom later v (x # xs) h =
     (case (if later then throughPointer v h else (Some v, h)) of
        (None, h') \<Rightarrow> (None, h')
      | (Some v', h') \<Rightarrow>
          (case FieldOf v' x h' of
             None \<Rightarrow> (None, h')
           | Some f \<Rightarrow> fieldReflectValueFrom True f xs h'))"

definition fieldReflectValue :: "rv \<Rightarrow> nat list \<Rightarrow> heap \<Rightarrow> rv option \<times> heap" where
  "fieldReflectValue v fieldIdx h = fieldReflectValueFrom False v fieldIdx h"

definition getFieldReflectValue ::
  "nat list list \<Rightarrow> cachedFieldInfoBase \<Rightarrow> rv \<Rightarrow> heap \<Rightarrow> rv option \<times> heap" where
  "getFieldReflectValue A cfi structValue h =
     (let fieldIdx = indexPath A (fieldIndexes cfi)
      in if length fieldIdx = 1 then (FieldOf structValue (fieldIdx ! 0) h, h)
         else fieldReflectValue structValue fieldIdx h)"

definition getOtherFieldReflectValue ::
  "nat list list \<Rightarrow> cachedFieldInfoBase \<Rightarrow> rv \<Rightarrow> nat \<Rightarrow> heap \<Rightarrow> rv option \<times> heap" where
  "getOtherFieldReflectValue A cfi structValue fieldLevel h =
     (if fieldLevel < length (otherSameNameFieldIndex cfi)
      then
        (let fieldIdx = indexPath A (otherSameNameFieldIndex cfi ! fieldLevel)
         in if length fieldIdx = 1 then (FieldOf structValue (fieldIdx ! 0) h, h)
            else fieldReflectValue structValue fieldIdx h)
      else (None, h))"

section \<open>The collaborators of the binder\<close>

text \<open>
  The binder calls code that is outside the files at hand: the JSON check, the registry of
  custom converters, the scalar conversion behind \<open>doConvertWithReflectValueSet\<close>, the methods
  of the user's types (\<open>UnmarshalValue\<close>, \<open>UnmarshalText\<close>, \<open>UnmarshalJSON\<close>, \<open>Set\<close>, looked up
  by the type whose pointer has the method), \<open>json.Valid\<close>, and the conversion rules of
  \<open>reflect.Value.Convert\<close> (\<open>None\<close> when it panics). They are parameters; a method gets the
  value and the address of its receiver. \<open>mapOrder\<close> is the order in which the runtime visits
  the keys of \<open>fieldInfoMap\<close>.
\<close>

type_synonym gomethod = "any \<Rightarrow> nat \<Rightarrow> heap \<Rightarrow> gerror option outcome \<times> heap"

record collab =
  doConvertWithJsonCheck :: "any \<Rightarrow> pointer \<Rightarrow> heap \<Rightarrow> (bool \<times> gerror option) \<times> heap"
  callCustomConverter :: "any \<Rightarrow> pointer \<Rightarrow> heap \<Rightarrow> (bool \<times> gerror option) \<times> heap"
  doConvertWithReflectValueSet :: "rv \<Rightarrow> any \<Rightarrow> heap \<Rightarrow> unit outcome \<times> heap"
  UnmarshalValue :: "gtype \<Rightarrow> gomethod option"
  UnmarshalText :: "gtype \<Rightarrow> gomethod option"
  UnmarshalJSON :: "gtype \<Rightarrow> gomethod option"
  SetMethod :: "gtype \<Rightarrow> gomethod option"
  jsonValid :: "string \<Rightarrow> bool"
  reflectConvert :: "any \<Rightarrow> gtype \<Rightarrow> cell option"
  mapOrder :: "string list \<Rightarrow> string list"

text \<open>
  Modelled from the spec: \<open>doMapConvert\<close> is outside the files at hand. It normalises the
  source into a string-keyed mapping: "maps pass through as-is", and "any other scalar source
  type fails this path" (Go's \<open>nil\<close> map).
\<close>

definition doMapConvert :: "any \<Rightarrow> (string \<times> any) list option" where
  "doMapConvert v = (case v of AMap m \<Rightarrow> Some m | _ \<Rightarrow> None)"

text \<open>
  Modelled from the spec: \<open>doConvertWithTypeCheck\<close> is outside the files at hand. It is the
  fast path: "if source and the concrete destination element share identical type, copy the
  value directly".
\<close>

definition typeOfAny :: "any \<Rightarrow> gtype option" where
  "typeOfAny v =
     (case v of
        ANil \<Rightarrow> None
      | AInt i \<Rightarrow> Some (TBasic ''int'')
      | AString s \<Rightarrow> Some (TBasic ''string'')
      | AMap m \<Rightarrow> Some (TBasic ''map[string]interface {}''))"

definition doConvertWithTypeCheck :: "any \<Rightarrow> rv \<Rightarrow> heap \<Rightarrow> bool \<times> heap" where
  "doConvertWithTypeCheck params pointerElem h =
     (if typeOfAny params = Some (rtype pointerElem)
      then (True, writeCell h (addr pointerElem) (CValue params))
      else (False, h))"

section \<open>Fuzzy matching\<close>

definition toLower :: "char \<Rightarrow> char" where
  "toLower c =
     (if 65 \<le> (of_char c :: nat) \<and> (of_char c :: nat) \<le> 90
      then char_of ((of_char c :: nat) + 32) else c)"

definition EqualFold :: "string \<Rightarrow> string \<Rightarrow> bool" where
  "EqualFold s t = (map toLower s = map toLower t)"

text \<open>
  \<open>fuzzyMatchingFieldName\<close> ranges over the source map and returns the first entry whose key
  is not used yet and matches; \<open>("", nil)\<close> when there is none.
\<close>

fun fuzzyLoop :: "string \<Rightarrow> (string \<times> any) list \<Rightarrow> string list \<Rightarrow> string \<times> any" where
  "fuzzyLoop fieldName [] usedParamsKey = ('''', ANil)"
| "fuzzyLoop fieldName ((paramKey, paramVal) # paramsMap) usedParamsKey =
     (if paramKey \<in> set usedParamsKey then fuzzyLoop fieldName paramsMap usedParamsKey
      else if EqualFold fieldName (RemoveSymbols paramKey) then (paramKey, paramVal)
      else fuzzyLoop fieldName paramsMap usedParamsKey)"

definition fuzzyMatchingFieldName ::
  "string \<Rightarrow> (string \<times> any) list \<Rightarrow> string list \<Rightarrow> string \<times> any" where
  "fuzzyMatchingFieldName fieldName paramsMap usedParamsKey =
     fuzzyLoop (RemoveSymbols fieldName) paramsMap usedParamsKey"

section \<open>The binder without cache: \<open>doStruct\<close>\<close>

text \<open>\<open>fieldInfo\<close> is the local type of \<open>doStruct\<close>; \<open>fieldInfoMap\<close> is keyed by field name.\<close>

record fieldInfo =
  tag :: string
  val :: any
  index :: nat

text \<open>The loop that looks each recorded key up in the source (\<open>paramsMap[field.tag]\<close>).\<close>

definition lookupVals ::
  "(string \<times> any) list \<Rightarrow> (string \<times> fieldInfo) list \<Rightarrow> (string \<times> fieldInfo) list" where
  "lookupVals paramsMap fieldInfoMap =
     map (\<lambda>(fieldName, field).
            (case map_of paramsMap (tag field) of
               Some paramsVal \<Rightarrow> (fieldName, field\<lparr>val := paramsVal\<rparr>)
             | None \<Rightarrow> (fieldName, field)))
         fieldInfoMap"

text \<open>The loop over the caller's overrides, \<open>paramKey\<close> to \<open>fieldName\<close>.\<close>

fun applyOverrides ::
  "(string \<times> string) list \<Rightarrow> (string \<times> any) list \<Rightarrow> (string \<times> fieldInfo) list
   \<Rightarrow> (string \<times> fieldInfo) list" where
  "applyOverrides [] paramsMap fieldInfoMap = fieldInfoMap"
| "applyOverrides ((paramKey, fieldName) # paramKeyToAttrMap) paramsMap fieldInfoMap =
     applyOverrides paramKeyToAttrMap paramsMap
       (case map_of fieldInfoMap fieldName of
          Some field \<Rightarrow>
            (case map_of paramsMap paramKey of
               Some paramsVal \<Rightarrow> AList.update fieldName (field\<lparr>val := paramsVal\<rparr>) fieldInfoMap
             | None \<Rightarrow> fieldInfoMap)
        | None \<Rightarrow> fieldInfoMap)"

text \<open>The entries of \<open>fieldInfoMap\<close> in the order the runtime visits them.\<close>

definition rangeOrder :: "collab \<Rightarrow> (string \<times> fieldInfo) list \<Rightarrow> (string \<times> fieldInfo) list" where
  "rangeOrder W fieldInfoMap =
     concat (map (\<lambda>k. case map_of fieldInfoMap k of Some field \<Rightarrow> [(k, field)] | None \<Rightarrow> [])
                 (mapOrder W (map fst fieldInfoMap)))"

text \<open>
  \<open>bindVarToReflectValueWithInterfaceCheck\<close>. \<open>interfaceMethods\<close> is its second half, from the
  pointer \<open>*t\<close> to the cell \<open>a\<close> on. A string is the only source value with bytes.
\<close>

definition valueBytes :: "any \<Rightarrow> string" where
  "valueBytes v = (case v of AString s \<Rightarrow> s | _ \<Rightarrow> [])"

definition callMethod :: "gomethod \<Rightarrow> any \<Rightarrow> nat \<Rightarrow> heap \<Rightarrow> (bool \<times> gerror option) outcome \<times> heap" where
  "callMethod m v a h =
     (case m v a h of
        (Return err, h') \<Rightarrow> (Return (True, err), h')
      | (Panic x, h') \<Rightarrow> (Panic x, h'))"

definition interfaceMethods ::
  "collab \<Rightarrow> gtype \<Rightarrow> nat \<Rightarrow> any \<Rightarrow> heap \<Rightarrow> (bool \<times> gerror option) outcome \<times> heap" where
  "interfaceMethods W t a v h =
     (case UnmarshalValue W t of
        Some m \<Rightarrow> callMethod m v a h
      | None \<Rightarrow>
          (if UnmarshalText W t \<noteq> None \<and> valueBytes v \<noteq> []
           then callMethod (the (UnmarshalText W t)) (AString (valueBytes v)) a h
           else if UnmarshalJSON W t \<noteq> None \<and> valueBytes v \<noteq> []
           then callMethod (the (UnmarshalJSON W t))
                  (AString (if jsonValid W (valueBytes v) then valueBytes v
                            else [char_of (34 :: nat)] @ valueBytes v @ [char_of (34 :: nat)])) a h
           else
             (case SetMethod W t of
                Some m \<Rightarrow>
                  (case m v a h of
                     (Return err, h') \<Rightarrow> (Return (True, None), h')
                   | (Panic x, h') \<Rightarrow> (Panic x, h'))
              | None \<Rightarrow> (Return (False, None), h))))"

definition bindVarToReflectValueWithInterfaceCheck ::
  "collab \<Rightarrow> pointer \<Rightarrow> any \<Rightarrow> heap \<Rightarrow> (bool \<times> gerror option) outcome \<times> heap" where
  "bindVarToReflectValueWithInterfaceCheck W reflectValue v h =
     (case reflectValue of
        Reflect r \<Rightarrow>
          (if Kind (rtype r) \<noteq> Ptr then interfaceMethods W (rtype r) (addr r) v h
           else
             (case ElemOf r h of
                None \<Rightarrow> (Return (False, None), h)
              | Some e \<Rightarrow> interfaceMethods W (rtype e) (addr e) v h))
      | Iface t p \<Rightarrow>
          (if Kind t \<noteq> Ptr
           then (Panic (PanicValue ''reflect: call of reflect.Value.IsNil on a value that is no pointer''), h)
           else
             (case p of
                None \<Rightarrow> (Return (False, None), h)
              | Some a \<Rightarrow> interfaceMethods W (Elem t) a v h))
      | NilPointer \<Rightarrow>
          (Panic (PanicValue ''reflect: call of reflect.Value.IsNil on zero Value''), h))"

text \<open>
  The deferred \<open>recover\<close> of \<open>doStruct\<close>, and the deferred reset after the automatic
  allocation: \<open>pointerReflectValue.Elem().Set(reflect.Zero(pointerReflectValue.Type().Elem()))\<close>
  when \<open>err\<close> is not \<open>nil\<close>. The reset runs first, and on a panic it still finds \<open>err = nil\<close>.
\<close>

definition recoverPanic :: "gerror option outcome \<times> heap \<Rightarrow> gerror option \<times> heap" where
  "recoverPanic r =
     (case r of
        (Return err, h) \<Rightarrow> (err, h)
      | (Panic x, h) \<Rightarrow>
          (Some (case x of
                   PanicError v \<Rightarrow>
                     (if HasStack v then v
                      else NewCodef CodeInternalPanic ''%+v'' [printExn x])
                 | PanicValue m \<Rightarrow> NewCodef CodeInternalPanic ''%+v'' [printExn x]), h))"

definition resetPointer :: "pointer \<Rightarrow> heap \<Rightarrow> heap" where
  "resetPointer pointerReflectValue h =
     (case pointerReflectValue of
        Iface t p \<Rightarrow> (case p of Some a \<Rightarrow> setZero (Elem t) a h | None \<Rightarrow> h)
      | Reflect r \<Rightarrow> (case ElemOf r h of Some e \<Rightarrow> setZero (rtype e) (addr e) h | None \<Rightarrow> h)
      | NilPointer \<Rightarrow> h)"

definition resetDefer ::
  "pointer \<Rightarrow> gerror option outcome \<times> heap \<Rightarrow> gerror option outcome \<times> heap" where
  "resetDefer pointerReflectValue r =
     (case r of
        (Return (Some err), h) \<Rightarrow> (Return (Some err), resetPointer pointerReflectValue h)
      | (Return None, h) \<Rightarrow> (Return None, h)
      | (Panic x, h) \<Rightarrow> (Panic x, h))"

text \<open>
  The assignment of \<open>bindVarToStructAttrWithFieldIndex\<close> proper, under its deferred \<open>recover\<close>:
  a \<open>nil\<close> value zeroes the field; otherwise the custom converter, the time types, the
  interfaces and the default conversion are tried in this order.
\<close>

definition assignField :: "collab \<Rightarrow> rv \<Rightarrow> any \<Rightarrow> heap \<Rightarrow> gerror option outcome \<times> heap" where
  "assignField W structFieldValue v h =
     (if v = ANil
      then (Return None, setZero (rtype structFieldValue) (addr structFieldValue) h)
      else
        (case callCustomConverter W v (Reflect structFieldValue) h of
           ((ok, err), h1) \<Rightarrow>
             (if ok \<or> err \<noteq> None then (Return err, h1)
              else if TypeString (rtype structFieldValue)
                        \<in> {''time.Time'', ''*time.Time'', ''*gtime.Time'', ''gtime.Time''}
              then
                (case doConvertWithReflectValueSet W structFieldValue v h1 of
                   (Return u, h2) \<Rightarrow> (Return None, h2)
                 | (Panic x, h2) \<Rightarrow> (Panic x, h2))
              else
                (case bindVarToReflectValueWithInterfaceCheck W (Reflect structFieldValue) v h1 of
                   (Panic x, h2) \<Rightarrow> (Panic x, h2)
                 | (Return (True, err2), h2) \<Rightarrow> (Return err2, h2)
                 | (Return (False, err2), h2) \<Rightarrow>
                     (case doConvertWithReflectValueSet W structFieldValue v h2 of
                        (Return u, h3) \<Rightarrow> (Return None, h3)
                      | (Panic x, h3) \<Rightarrow> (Panic x, h3))))))"

text \<open>The size of the type a \<open>pointer\<close> leads to bounds the depth of the recursion.\<close>

fun psize :: "pointer \<Rightarrow> nat" where
  "psize NilPointer = 0"
| "psize (Iface t p) = size t"
| "psize (Reflect r) = size (rtype r)"

lemma size_ElemOf: "ElemOf v h = Some e \<Longrightarrow> size (rtype e) \<le> size (rtype v)"
  by (auto simp: ElemOf_def size_Elem split: option.splits cell.splits)

lemma size_nth_field: "i < length fs \<Longrightarrow> size (Type (fs ! i)) < Suc (size_list size fs)"
proof (induction fs arbitrary: i)
  case Nil
  then show ?case by simp
next
  case (Cons f fs)
  show ?case
  proof (cases i)
    case 0
    have "size (Type f) < Suc (size f + 0)" by (rule size_Type)
    with 0 show ?thesis by simp
  next
    case (Suc j)
    with Cons.prems have "j < length fs" by simp
    from Cons.IH [OF this] Suc show ?thesis by simp
  qed
qed

lemma size_FieldOf: "FieldOf v i h = Some f \<Longrightarrow> size (rtype f) < size (rtype v)"
  by (cases "rtype v")
    (auto simp: FieldOf_def split: option.splits cell.splits if_splits dest: size_nth_field)

text \<open>
  \<open>doStruct\<close> with the functions it calls and that call it back. \<open>doStructBody\<close> is the part
  under the deferred \<open>recover\<close>; \<open>structFields\<close> is the part from \<open>doMapConvert\<close> on, for the
  struct value \<open>pointerElem\<close>; \<open>fieldLoop\<close> is the loop over the fields of the struct type, from
  position \<open>i\<close> on, and \<open>bindLoop\<close> the last loop over \<open>fieldInfoMap\<close>. Every function returns
  the heap it leaves behind.
\<close>

function (sequential)
  doStruct ::
    "env \<Rightarrow> collab \<Rightarrow> any \<Rightarrow> pointer \<Rightarrow> (string \<times> string) list \<Rightarrow> string \<Rightarrow> heap
     \<Rightarrow> gerror option \<times> heap"
and doStructBody ::
    "env \<Rightarrow> collab \<Rightarrow> any \<Rightarrow> pointer \<Rightarrow> (string \<times> string) list \<Rightarrow> string \<Rightarrow> heap
     \<Rightarrow> gerror option outcome \<times> heap"
and structFields ::
    "env \<Rightarrow> collab \<Rightarrow> any \<Rightarrow> rv \<Rightarrow> (string \<times> string) list \<Rightarrow> string \<Rightarrow> heap
     \<Rightarrow> gerror option outcome \<times> heap"
and fieldLoop ::
    "env \<Rightarrow> collab \<Rightarrow> (string \<times> any) list \<Rightarrow> rv \<Rightarrow> sfield list \<Rightarrow> nat
     \<Rightarrow> (string \<times> string) list \<Rightarrow> string \<Rightarrow> (string \<times> fieldInfo) list \<Rightarrow> heap
     \<Rightarrow> (gerror + (string \<times> fieldInfo) list) outcome \<times> heap"
and bindLoop ::
    "env \<Rightarrow> collab \<Rightarrow> (string \<times> any) list \<Rightarrow> rv \<Rightarrow> (string \<times> fieldInfo) list
     \<Rightarrow> (string \<times> string) list \<Rightarrow> string list \<Rightarrow> heap \<Rightarrow> gerror option outcome \<times> heap"
and bindVarToStructAttrWithFieldIndex ::
    "env \<Rightarrow> collab \<Rightarrow> rv \<Rightarrow> string \<Rightarrow> nat \<Rightarrow> any \<Rightarrow> (string \<times> string) list \<Rightarrow> heap
     \<Rightarrow> gerror option outcome \<times> heap"
and bindVarToReflectValue ::
    "env \<Rightarrow> collab \<Rightarrow> rv \<Rightarrow> any \<Rightarrow> (string \<times> string) list \<Rightarrow> heap
     \<Rightarrow> gerror option outcome \<times> heap"
where
  "doStruct E W params pointer paramKeyToAttrMap priorityTag h =
     (if params = ANil then (None, h)
      else if pointer = NilPointer
      then (Some (NewCode CodeInvalidParameter ''object pointer cannot be nil''), h)
      else
        (case doConvertWithJsonCheck W params pointer h of
           ((ok, Some err), h1) \<Rightarrow> (Some err, h1)
         | ((True, None), h1) \<Rightarrow> (None, h1)
         | ((False, None), h1) \<Rightarrow>
             recoverPanic (doStructBody E W params pointer paramKeyToAttrMap priorityTag h1)))"
| "doStructBody E W params pointer paramKeyToAttrMap priorityTag h =
     (case (case pointer of
              Reflect r \<Rightarrow> Inr r
            | Iface t p \<Rightarrow>
                (if Kind t \<noteq> Ptr
                 then Inl (NewCodef CodeInvalidParameter
                        ''destination pointer should be type of *struct, but got %v'' [TypeString t])
                 else
                   (case p of
                      None \<Rightarrow> Inl (NewCode CodeInvalidParameter ''destination pointer cannot be nil'')
                    | Some a \<Rightarrow> Inr \<lparr>addr = a, rtype = Elem t\<rparr>))
            | NilPointer \<Rightarrow>
                Inl (NewCodef CodeInvalidParameter
                       ''destination pointer should be type of *struct, but got %v'' [''invalid''])) of
        Inl err \<Rightarrow> (Return (Some err), h)
      | Inr pointerElem \<Rightarrow>
          (case doConvertWithTypeCheck params pointerElem h of
             (True, h1) \<Rightarrow> (Return None, h1)
           | (False, h1) \<Rightarrow>
               (case callCustomConverter W params pointer h1 of
                  ((True, err), h2) \<Rightarrow> (Return err, h2)
                | ((False, err), h2) \<Rightarrow>
                    (case bindVarToReflectValueWithInterfaceCheck W pointer params h2 of
                       (Panic x, h3) \<Rightarrow> (Panic x, h3)
                     | (Return (True, err), h3) \<Rightarrow> (Return err, h3)
                     | (Return (False, err), h3) \<Rightarrow>
                         (if Kind (rtype pointerElem) \<noteq> Ptr
                          then structFields E W params pointerElem paramKeyToAttrMap priorityTag h3
                          else
                            (let allocated = IsNil pointerElem h3;
                                 h4 = (if allocated
                                       then (case allocZero (Elem (rtype pointerElem)) h3 of
                                               (e, h') \<Rightarrow> writeCell h' (addr pointerElem) (CPtr (Some e)))
                                       else h3);
                                 r =
                                   (case bindVarToReflectValueWithInterfaceCheck W
                                           (Reflect pointerElem) params h4 of
                                      (Panic x, h5) \<Rightarrow> (Panic x, h5)
                                    | (Return (True, err), h5) \<Rightarrow> (Return err, h5)
                                    | (Return (False, err), h5) \<Rightarrow>
                                        (case ElemOf pointerElem h5 of
                                           None \<Rightarrow>
                                             (Panic (PanicValue
                                                ''reflect: call of reflect.Value.NumField on zero Value''), h5)
                                         | Some e \<Rightarrow>
                                             structFields E W params e paramKeyToAttrMap priorityTag h5))
                             in if allocated then resetDefer pointer r else r))))))"
| "structFields E W params pointerElem paramKeyToAttrMap priorityTag h =
     (case doMapConvert params of
        None \<Rightarrow>
          (Return (Some (NewCodef CodeInvalidParameter
             ''convert params from %#v to map[string]interface{} failed'' [])), h)
      | Some paramsMap \<Rightarrow>
          (if length paramsMap = 0 then (Return None, h)
           else
             (case rtype pointerElem of
                TStruct n fs \<Rightarrow>
                  (case fieldLoop E W paramsMap pointerElem fs 0 paramKeyToAttrMap priorityTag [] h of
                     (Panic x, h1) \<Rightarrow> (Panic x, h1)
                   | (Return (Inl err), h1) \<Rightarrow> (Return (Some err), h1)
                   | (Return (Inr fieldInfoMap), h1) \<Rightarrow>
                       (if length fieldInfoMap = 0 then (Return None, h1)
                        else bindLoop E W paramsMap pointerElem
                               (rangeOrder W
                                  (applyOverrides paramKeyToAttrMap paramsMap
                                     (lookupVals paramsMap fieldInfoMap)))
                               paramKeyToAttrMap [] h1))
              | _ \<Rightarrow>
                  (Panic (PanicValue
                     ''reflect: call of reflect.Value.NumField on a value that is no struct''), h))))"
| "fieldLoop E W paramsMap pointerElem [] i paramKeyToAttrMap priorityTag fieldInfoMap h =
     (Return (Inr fieldInfoMap), h)"
| "fieldLoop E W paramsMap pointerElem (f # fs) i paramKeyToAttrMap priorityTag fieldInfoMap h =
     (if \<not> isPublic (Name f)
      then fieldLoop E W paramsMap pointerElem fs (Suc i) paramKeyToAttrMap priorityTag fieldInfoMap h
      else
        (let recorded =
               (case recordedTag f (priorityTagArrayOf E priorityTag) of
                  Some fieldTag \<Rightarrow>
                    AList.update (Name f) \<lparr>tag = fieldTag, val = ANil, index = i\<rparr> fieldInfoMap
                | None \<Rightarrow> fieldInfoMap)
         in if \<not> Anonymous f
            then fieldLoop E W paramsMap pointerElem fs (Suc i) paramKeyToAttrMap priorityTag recorded h
            else
              (case FieldOf pointerElem i h of
                 None \<Rightarrow> (Panic (PanicValue ''reflect: Field index out of range''), h)
               | Some elemFieldValue \<Rightarrow>
                   (if Kind (Type f) = Interface
                    then
                      (if IsNil elemFieldValue h
                       then fieldLoop E W paramsMap pointerElem fs (Suc i)
                              paramKeyToAttrMap priorityTag recorded h
                       else (Return (Inl (NewCodef CodeInternalPanic ''%+v''
                               [''reflect: call of reflect.Value.NumField on a value that is no struct''])), h))
                    else
                      (case doStruct E W (AMap paramsMap) (Reflect (elemFieldValue\<lparr>rtype := Type f\<rparr>))
                              paramKeyToAttrMap priorityTag h of
                         (Some err, h1) \<Rightarrow> (Return (Inl err), h1)
                       | (None, h1) \<Rightarrow>
                           fieldLoop E W paramsMap pointerElem fs (Suc i)
                             paramKeyToAttrMap priorityTag recorded h1)))))"
| "bindLoop E W paramsMap pointerElem [] paramKeyToAttrMap usedParamsKey h = (Return None, h)"
| "bindLoop E W paramsMap pointerElem ((fieldName, field) # rest) paramKeyToAttrMap usedParamsKey h =
     (if val field \<noteq> ANil
      then
        (case bindVarToStructAttrWithFieldIndex E W pointerElem fieldName (index field) (val field)
                paramKeyToAttrMap h of
           (Return None, h1) \<Rightarrow>
             bindLoop E W paramsMap pointerElem rest paramKeyToAttrMap (tag field # usedParamsKey) h1
         | (r, h1) \<Rightarrow> (r, h1))
      else
        (case fuzzyMatchingFieldName fieldName paramsMap usedParamsKey of
           (key, v) \<Rightarrow>
             (if v \<noteq> ANil
              then
                (case bindVarToStructAttrWithFieldIndex E W pointerElem fieldName (index field) v
                        paramKeyToAttrMap h of
                   (Return None, h1) \<Rightarrow>
                     bindLoop E W paramsMap pointerElem rest paramKeyToAttrMap (key # usedParamsKey) h1
                 | (r, h1) \<Rightarrow> (r, h1))
              else bindLoop E W paramsMap pointerElem rest paramKeyToAttrMap usedParamsKey h)))"
| "bindVarToStructAttrWithFieldIndex E W structReflectValue attrName fieldIndex v paramKeyToAttrMap h =
     (case FieldOf structReflectValue fieldIndex h of
        None \<Rightarrow> (Panic (PanicValue ''reflect: Field index out of range''), h)
      | Some structFieldValue \<Rightarrow>
          (case assignField W structFieldValue v h of
             (Return err, h1) \<Rightarrow> (Return err, h1)
           | (Panic x, h1) \<Rightarrow>
               (case bindVarToReflectValue E W structFieldValue v paramKeyToAttrMap h1 of
                  (Return (Some err), h2) \<Rightarrow>
                    (Return (Some (Wrapf err ''error binding value to attribute %s'' [attrName])), h2)
                | (r, h2) \<Rightarrow> (r, h2))))"
| "bindVarToReflectValue E W structFieldValue v paramKeyToAttrMap h =
     (case doConvertWithJsonCheck W v (Reflect structFieldValue) h of
        ((ok, Some err), h1) \<Rightarrow> (Return (Some err), h1)
      | ((True, None), h1) \<Rightarrow> (Return None, h1)
      | ((False, None), h1) \<Rightarrow>
          (case (if Kind (rtype structFieldValue) = Ptr
                 then (case ElemOf structFieldValue h1 of
                         Some e \<Rightarrow> map_option (\<lambda>m. (m, addr e)) (SetMethod W (rtype e))
                       | None \<Rightarrow> None)
                 else None) of
             Some (m, a) \<Rightarrow>
               (case m v a h1 of
                  (Return err, h2) \<Rightarrow> (Return None, h2)
                | (Panic x, h2) \<Rightarrow> (Panic x, h2))
           | None \<Rightarrow>
               (case Kind (rtype structFieldValue) of
                  Struct \<Rightarrow>
                    (case doStruct E W v (Reflect structFieldValue) [] [] h1 of
                       (None, h2) \<Rightarrow> (Return None, h2)
                     | (Some err, h2) \<Rightarrow>
                         (case reflectConvert W v (rtype structFieldValue) of
                            None \<Rightarrow> (Panic (PanicValue ''reflect.Value.Convert: value cannot be converted''), h2)
                          | Some c \<Rightarrow> (Return None, writeCell h2 (addr structFieldValue) c)))
                | Ptr \<Rightarrow>
                    (case ElemOf structFieldValue h1 of
                       Some e \<Rightarrow> bindVarToReflectValue E W e v paramKeyToAttrMap h1
                     | None \<Rightarrow>
                         (case allocZero (Elem (rtype structFieldValue)) h1 of
                            (item, h2) \<Rightarrow>
                              (case bindVarToReflectValueWithInterfaceCheck W
                                      (Iface (rtype structFieldValue) (Some item)) v h2 of
                                 (Panic x, h3) \<Rightarrow> (Panic x, h3)
                               | (Return (True, err), h3) \<Rightarrow>
                                   (Return err, writeCell h3 (addr structFieldValue) (CPtr (Some item)))
                               | (Return (False, err), h3) \<Rightarrow>
                                   (case bindVarToReflectValue E W
                                           \<lparr>addr = item, rtype = Elem (rtype structFieldValue)\<rparr>
                                           v paramKeyToAttrMap h3 of
                                      (Return None, h4) \<Rightarrow>
                                        (Return None,
                                         writeCell h4 (addr structFieldValue) (CPtr (Some item)))
                                    | (Return (Some err2), h4) \<Rightarrow> (Return None, h4)
                                    | (Panic x, h4) \<Rightarrow> (Panic x, h4)))))
                | Interface \<Rightarrow>
                    (if v = ANil
                     then (Return None, writeCell h1 (addr structFieldValue) (CValue ANil))
                     else
                       (case reflectConvert W v (rtype structFieldValue) of
                          None \<Rightarrow> (Panic (PanicValue ''reflect.Value.Convert: value cannot be converted''), h1)
                        | Some c \<Rightarrow> (Return None, writeCell h1 (addr structFieldValue) c)))
                | Other \<Rightarrow>
                    (case reflectConvert W v (rtype structFieldValue) of
                       None \<Rightarrow>
                         (Return (Some (NewCodef CodeInternalPanic
                            ''cannot convert value %+v to type %s:%+v''
                            [TypeString (rtype structFieldValue)])), h1)
                     | Some c \<Rightarrow> (Return None, writeCell h1 (addr structFieldValue) c)))))"
  by pat_completeness auto

lemma size_Elem_Ptr: "Kind t = Ptr \<Longrightarrow> size (Elem t) < size t"
  by (cases t) simp_all

lemma size_ElemOf_Ptr:
  "ElemOf v h = Some e \<Longrightarrow> Kind (rtype v) = Ptr \<Longrightarrow> size (rtype e) < size (rtype v)"
  by (auto simp: ElemOf_def size_Elem_Ptr split: option.splits cell.splits)

text \<open>
  The recursion ends because a recursive call is about a proper part of the destination
  type: an embedded field, the field being bound, or what a pointer leads to.
\<close>

termination doStruct
  apply (relation "measures
    [\<lambda>x. case x of
        Inl (Inl (E, W, params, pointer, r)) \<Rightarrow> 8 * psize pointer + 6
      | Inl (Inr (Inl (E, W, params, pointer, r))) \<Rightarrow> 8 * psize pointer + 5
      | Inl (Inr (Inr (E, W, params, pointerElem, r))) \<Rightarrow> 8 * size (rtype pointerElem) + 4
      | Inr (Inl (Inl (E, W, paramsMap, pointerElem, fs, r))) \<Rightarrow> 8 * size_list size fs + 3
      | Inr (Inl (Inr (E, W, paramsMap, pointerElem, r))) \<Rightarrow> 8 * size (rtype pointerElem) + 2
      | Inr (Inr (Inl (E, W, structReflectValue, r))) \<Rightarrow> 8 * size (rtype structReflectValue) + 1
      | Inr (Inr (Inr (E, W, structFieldValue, r))) \<Rightarrow> 8 * size (rtype structFieldValue) + 7,
     \<lambda>x. case x of
        Inr (Inl (Inl (E, W, paramsMap, pointerElem, fs, r))) \<Rightarrow> length fs
      | Inr (Inl (Inr (E, W, paramsMap, pointerElem, entries, r))) \<Rightarrow> length entries
      | _ \<Rightarrow> 0]")
                      apply simp_all
  subgoal for W params pointer h b
    using size_Elem [of "case pointer of Iface t p \<Rightarrow> t | _ \<Rightarrow> TBasic []"]
    by (cases pointer) (auto split: if_splits option.splits)
  subgoal for W params pointer h b x y xa ya xb yb xc yc x1 xd yd xe xf xg ye x1a xh yf x2
    using size_Elem [of "case pointer of Iface t p \<Rightarrow> t | _ \<Rightarrow> TBasic []"]
      size_ElemOf [of b ye x2]
    by (cases pointer) (auto split: if_splits option.splits)
  subgoal for E pointerElem f fs
    using size_Type [of f 0] by simp
  subgoal for W structReflectValue fieldIndex v h x2
    using size_FieldOf [of structReflectValue fieldIndex h x2] by simp
  subgoal for W structFieldValue
    by (rule size_Elem_Ptr)
  subgoal for W structFieldValue v h x y xa ya x2
    by (rule size_ElemOf_Ptr)
  done

text \<open>
  The collaborators of the examples: no JSON source, no custom converter, no method on any
  type. The scalar conversion stores the value in a cell of a basic type and panics on any
  other; \<open>Convert\<close> accepts a number or a string for a basic type only. The runtime visits
  \<open>fieldInfoMap\<close> in the order of declaration.
\<close>

definition exWorld :: collab where
  "exWorld =
     \<lparr>doConvertWithJsonCheck = (\<lambda>v p h. ((False, None), h)),
      callCustomConverter = (\<lambda>v p h. ((False, None), h)),
      doConvertWithReflectValueSet =
        (\<lambda>r v h. if Kind (rtype r) = Other then (Return (), writeCell h (addr r) (CValue v))
                  else (Panic (PanicValue ''reflect.Set: value is not assignable''), h)),
      UnmarshalValue = (\<lambda>t. None),
      UnmarshalText = (\<lambda>t. None),
      UnmarshalJSON = (\<lambda>t. None),
      SetMethod = (\<lambda>t. None),
      jsonValid = (\<lambda>s. False),
      reflectConvert =
        (\<lambda>v t. if Kind t = Other \<and> (case v of AInt i \<Rightarrow> True | AString s \<Rightarrow> True | _ \<Rightarrow> False)
                then Some (CValue v) else None),
      mapOrder = (\<lambda>ks. ks)\<rparr>"

text \<open>\<open>type User struct { UserName string; Age int }\<close>, and a zero \<open>User\<close> at address 2.\<close>

definition exUser :: gtype where
  "exUser = TStruct ''main.User''
     [StructField ''UserName'' (TBasic ''string'') [] False,
      StructField ''Age'' (TBasic ''int'') [] False]"

definition exUserHeap :: heap where
  "exUserHeap = [CValue ANil, CValue ANil, CStruct [0, 1]]"

text \<open>
  \<open>type Accounts struct { UserName string; Username string }\<close>, a zero value at address 2,
  and the runtime that visits \<open>fieldInfoMap\<close> in the reverse order.
\<close>

definition exAccounts :: gtype where
  "exAccounts = TStruct ''main.Accounts''
     [StructField ''UserName'' (TBasic ''string'') [] False,
      StructField ''Username'' (TBasic ''string'') [] False]"

definition exWorldRev :: collab where
  "exWorldRev = exWorld\<lparr>mapOrder := rev\<rparr>"

text \<open>\<open>type Pair struct { A string; B string }\<close>, a zero value at address 2.\<close>

definition exPair :: gtype where
  "exPair = TStruct ''main.Pair''
     [StructField ''A'' (TBasic ''string'') [] False,
      StructField ''B'' (TBasic ''string'') [] False]"

text \<open>
  \<open>type Bad string\<close> with a method \<open>func (b *Bad) UnmarshalValue(interface{}) error\<close>,
  \<open>type Inner struct { X Bad }\<close> and \<open>type Holder struct { *Inner }\<close>; a zero \<open>Holder\<close> at
  address 1, its embedded pointer (\<open>nil\<close>) at address 0. In \<open>exWorldError\<close> the method returns
  an error, in \<open>exWorldPanic\<close> it panics, as does the \<open>UnmarshalValue\<close> of \<open>*User\<close> and of
  \<open>*Strict\<close>.
\<close>

definition exBad :: gtype where
  "exBad = TBasic ''main.Bad''"

definition exInner :: gtype where
  "exInner = TStruct ''main.Inner'' [StructField ''X'' exBad [] False]"

definition exHolder :: gtype where
  "exHolder = TStruct ''main.Holder'' [StructField ''Inner'' (TPtr exInner) [] True]"

definition exHolderHeap :: heap where
  "exHolderHeap = [CPtr None, CStruct [0]]"

definition exWorldError :: collab where
  "exWorldError =
     exWorld\<lparr>UnmarshalValue :=
       (\<lambda>t. if t = exBad then Some (\<lambda>v a h. (Return (Some (PlainError ''bad value'')), h))
            else None)\<rparr>"

text \<open>\<open>type Strict struct { N int }\<close> and \<open>type Wrap struct { X Strict }\<close>, zero at address 2.\<close>

definition exStrict :: gtype where
  "exStrict = TStruct ''main.Strict'' [StructField ''N'' (TBasic ''int'') [] False]"

definition exWrap :: gtype where
  "exWrap = TStruct ''main.Wrap'' [StructField ''X'' exStrict [] False]"

definition exWrapHeap :: heap where
  "exWrapHeap = [CValue ANil, CStruct [0], CStruct [1]]"

definition exWorldPanic :: collab where
  "exWorldPanic =
     exWorld\<lparr>UnmarshalValue :=
       (\<lambda>t. if t = exBad \<or> t = exUser \<or> t = exStrict
            then Some (\<lambda>v a h. (Panic (PanicValue ''boom''), h))
            else None)\<rparr>"

text \<open>
  \<open>type L3 struct { P int; Q int }\<close>, \<open>type L2 struct { L3 }\<close>, \<open>type L1 struct { L2 }\<close> and
  \<open>type Deep struct { L1 }\<close>: \<open>P\<close> and \<open>Q\<close> are promoted through three embeddings.
\<close>

definition exDeep :: gtype where
  "exDeep = TStruct ''main.Deep''
     [StructField ''L1'' (TStruct ''main.L1''
        [StructField ''L2'' (TStruct ''main.L2''
           [StructField ''L3'' (TStruct ''main.L3''
              [StructField ''P'' (TBasic ''int'') [] False,
               StructField ''Q'' (TBasic ''int'') [] False]) [] True]) [] True]) [] True]"

text \<open>
  A zero \<open>Twice\<close> at address 4 (\<open>First\<close> at 1 with its \<open>ID\<close> at 0, \<open>Second\<close> at 3 with its
  \<open>ID\<close> at 2), and a zero \<open>Shadow\<close> at address 5 (\<open>Uid\<close> at 0, \<open>First\<close> at 2 with its \<open>ID\<close> at
  1, \<open>Second\<close> at 4 with its \<open>ID\<close> at 3).
\<close>

definition exTwiceHeap :: heap where
  "exTwiceHeap = [CValue ANil, CStruct [0], CValue ANil, CStruct [2], CStruct [1, 3]]"

definition exShadowHeap :: heap where
  "exShadowHeap =
     [CValue ANil, CValue ANil, CStruct [1], CValue ANil, CStruct [3], CStruct [0, 2, 4]]"

section \<open>Properties of tag resolution\<close>

lemma getTag_firstPresent:
  "getTag field tags = (case firstPresent field tags of None \<Rightarrow> [] | Some t \<Rightarrow> tagName field t)"
  by (induction tags) (auto simp: firstPresent_def present_def tagName_def split: option.splits)

lemma priorityTagName_firstNamed:
  "priorityTagName field tags = map_option (tagName field) (firstNamed field tags)"
  by (induction tags) (auto simp: firstNamed_def tagName_def Let_def split: option.splits)

lemma firstNamed_named: "firstNamed field tags = Some t \<Longrightarrow> tagName field t \<noteq> []"
  unfolding firstNamed_def by (induction tags) (auto split: if_splits)

text \<open>
  Claim C8, as amended. The match keys of a field are never empty, their last entry is the
  declared name of the field, and there is at most one entry before it: the name part of the
  highest-priority tag of the list that the field carries \<^emph>\<open>with a non-empty name part\<close>. A
  present tag whose name part is empty is passed over. \<open>FieldName\<close> therefore always finds
  the declared name.
\<close>

theorem genPriorityTagAndFieldName_keys:
  "genPriorityTagAndFieldName field tags =
     (case firstNamed field tags of
        None \<Rightarrow> [Name field]
      | Some t \<Rightarrow> [tagName field t, Name field])
   \<and> genPriorityTagAndFieldName field tags \<noteq> []
   \<and> last (genPriorityTagAndFieldName field tags) = Name field
   \<and> length (genPriorityTagAndFieldName field tags) \<le> 2
   \<and> FieldName (b\<lparr>priorityTagAndFieldName := genPriorityTagAndFieldName field tags\<rparr>)
       = Some (Name field)"
proof -
  have keys: "genPriorityTagAndFieldName field tags =
      (case firstNamed field tags of
         None \<Rightarrow> [Name field]
       | Some t \<Rightarrow> [tagName field t, Name field])"
    by (simp add: genPriorityTagAndFieldName_def priorityTagName_firstNamed split: option.splits)
  show ?thesis
  proof (cases "firstNamed field tags")
    case None
    with keys show ?thesis by (simp add: FieldName_def)
  next
    case (Some t)
    with keys show ?thesis by (simp add: FieldName_def)
  qed
qed

text \<open>
  Claim C8 as stated fails: the field \<open>A string `a:",omitempty" b:"y"`\<close> under the priority
  \<open>a, b\<close> gets the match keys \<open>y, A\<close>. The highest-priority present tag is \<open>a\<close>, whose name part
  is empty; the key \<open>y\<close> comes from the lower tag \<open>b\<close>.
\<close>

theorem genPriorityTagAndFieldName_lower_tag:
  "genPriorityTagAndFieldName
     (StructField ''A'' (TBasic ''string'') [(''a'', '',omitempty''), (''b'', ''y'')] False)
     [''a'', ''b''] = [''y'', ''A'']
   \<and> firstPresent
       (StructField ''A'' (TBasic ''string'') [(''a'', '',omitempty''), (''b'', ''y'')] False)
       [''a'', ''b''] = Some ''a''
   \<and> tagName
       (StructField ''A'' (TBasic ''string'') [(''a'', '',omitempty''), (''b'', ''y'')] False)
       ''a'' = []"
  by (simp add: genPriorityTagAndFieldName_def firstPresent_def present_def tagName_def
      Lookup_def TrimSpace_def SplitFirst_def isSpace_def)

text \<open>
  Claim C5, as amended. The two tag resolutions agree on the primary match key of a field in
  two cases: when the highest-priority present tag has a non-empty name part, both give that
  name part; when no tag of the list has a non-empty name part and the field is not embedded,
  both give the declared name. (When the highest-priority present tag has an empty name part
  and a lower tag has not, \<open>getTag\<close> stops at the first and the cache path goes on to the
  second.)
\<close>

theorem tag_resolution_agree:
  assumes "firstNamed field tags = None \<and> \<not> Anonymous field
           \<or> firstNamed field tags \<noteq> None \<and> firstPresent field tags = firstNamed field tags"
  shows "recordedTag field tags = Some (hd (genPriorityTagAndFieldName field tags))
         \<and> hd (genPriorityTagAndFieldName field tags) =
             (case firstNamed field tags of None \<Rightarrow> Name field | Some t \<Rightarrow> tagName field t)"
proof -
  have hd_keys: "hd (genPriorityTagAndFieldName field tags) =
      (case firstNamed field tags of None \<Rightarrow> Name field | Some t \<Rightarrow> tagName field t)"
    by (simp add: genPriorityTagAndFieldName_def priorityTagName_firstNamed split: option.splits)
  from assms show ?thesis
  proof (elim disjE conjE)
    assume none: "firstNamed field tags = None" and plain: "\<not> Anonymous field"
    have "getTag field tags = []"
    proof (cases "firstPresent field tags")
      case None
      then show ?thesis by (simp add: getTag_firstPresent)
    next
      case (Some t)
      have "tagName field t = []"
      proof (rule ccontr)
        assume "tagName field t \<noteq> []"
        moreover from Some have "t \<in> set tags"
          by (auto simp: firstPresent_def find_Some_iff)
        ultimately have "find (\<lambda>t. tagName field t \<noteq> []) tags \<noteq> None"
          by (auto simp: find_None_iff)
        with none show False by (simp add: firstNamed_def)
      qed
      with Some show ?thesis by (simp add: getTag_firstPresent)
    qed
    with none plain hd_keys show ?thesis by (simp add: recordedTag_def Let_def)
  next
    assume some: "firstNamed field tags \<noteq> None"
      and same: "firstPresent field tags = firstNamed field tags"
    from some obtain t where t: "firstNamed field tags = Some t" by auto
    then have "tagName field t \<noteq> []" by (rule firstNamed_named)
    moreover from t same have "getTag field tags = tagName field t"
      by (simp add: getTag_firstPresent)
    ultimately show ?thesis using t hd_keys by (simp add: recordedTag_def Let_def)
  qed
qed

theorem tag_resolution_agree_witness:
  "recordedTag (StructField ''Id'' (TBasic ''int'') [(''orm'', ''id, priority'')] False) [''json'', ''orm'']
     = Some ''id''
   \<and> hd (genPriorityTagAndFieldName
           (StructField ''Id'' (TBasic ''int'') [(''orm'', ''id, priority'')] False) [''json'', ''orm''])
     = ''id''"
proof -
  let ?f = "StructField ''Id'' (TBasic ''int'') [(''orm'', ''id, priority'')] False"
  have named: "firstNamed ?f [''json'', ''orm''] = Some ''orm''"
    by (simp add: firstNamed_def tagName_def Lookup_def TrimSpace_def SplitFirst_def isSpace_def)
  have pres: "firstPresent ?f [''json'', ''orm''] = Some ''orm''"
    by (simp add: firstPresent_def present_def Lookup_def)
  have name: "tagName ?f ''orm'' = ''id''"
    by (simp add: tagName_def Lookup_def TrimSpace_def SplitFirst_def isSpace_def)
  from tag_resolution_agree [of ?f "[''json'', ''orm'']"] named pres name
  show ?thesis by simp
qed

text \<open>
  Claim C5 as stated fails on the same field as above: \<open>getTag\<close> answers the empty name part
  of \<open>a\<close>, so \<open>doStruct\<close> records the field under its declared name \<open>A\<close>, while the cache path
  records it under \<open>y\<close>.
\<close>

theorem tag_resolution_disagree:
  "recordedTag
     (StructField ''A'' (TBasic ''string'') [(''a'', '',omitempty''), (''b'', ''y'')] False)
     [''a'', ''b''] = Some ''A''
   \<and> hd (genPriorityTagAndFieldName
           (StructField ''A'' (TBasic ''string'') [(''a'', '',omitempty''), (''b'', ''y'')] False)
           [''a'', ''b'']) = ''y''"
  by (simp add: recordedTag_def genPriorityTagAndFieldName_def Let_def
      Lookup_def TrimSpace_def SplitFirst_def isSpace_def)

section \<open>Properties of the descriptor table\<close>

lemma registered_addEntry:
  "registered (addEntry f b k csi) k' \<longleftrightarrow> k' = k \<or> registered csi k'"
  by (simp add: registered_def GetFieldInfo_def addEntry_def Let_def update_conv')

lemma registered_fold_addEntry:
  "registered (fold (addEntry f b) ks csi) k' \<longleftrightarrow> k' \<in> set ks \<or> registered csi k'"
proof (induction ks arbitrary: csi)
  case Nil
  show ?case by simp
next
  case (Cons k ks)
  show ?case by (auto simp: Cons.IH registered_addEntry)
qed

lemma registered_bases [simp]: "registered (csi\<lparr>bases := bs\<rparr>) k = registered csi k"
  by (simp add: registered_def GetFieldInfo_def)

lemma registered_arrays [simp]: "registered (csi\<lparr>arrays := A\<rparr>) k = registered csi k"
  by (simp add: registered_def GetFieldInfo_def)

text \<open>\<open>AddField\<close> adds the match keys of a field unless its declared name is a key already.\<close>

lemma registered_AddField:
  "registered (AddField E f idx tags csi) k \<longleftrightarrow>
     registered csi k
     \<or> \<not> registered csi (Name f) \<and> k \<in> set (genPriorityTagAndFieldName f tags)"
proof (cases "map_of (tagOrFiledNameToFieldInfoMap csi) (Name f)")
  case None
  then have "\<not> registered csi (Name f)" by (simp add: registered_def GetFieldInfo_def)
  with None show ?thesis
    by (auto simp: AddField_def Let_def registered_fold_addEntry)
next
  case (Some d)
  then have "registered csi (Name f)" by (simp add: registered_def GetFieldInfo_def)
  with Some show ?thesis by (simp add: AddField_def Let_def)
qed

lemma AddField_adds: "registered (AddField E f idx tags csi) (Name f)"
proof -
  have "Name f \<in> set (genPriorityTagAndFieldName f tags)"
    by (simp add: genPriorityTagAndFieldName_def split: option.splits)
  then show ?thesis by (auto simp: registered_AddField)
qed

lemma parse_keeps:
  "registered csi k \<Longrightarrow> registered (parseStruct E t idx csi tags) k"
  "registered csi k \<Longrightarrow> registered (parseFields E fs i idx csi tags) k"
  by (induction E t idx csi tags and E fs i idx csi tags rule: parseStruct_parseFields.induct)
    (auto simp: Let_def registered_AddField split: prod.splits)

lemma parseFields_registers:
  "sf \<in> set fs \<Longrightarrow> isPublic (Name sf) \<Longrightarrow> registered (parseFields E fs i idx csi tags) (Name sf)"
proof (induction fs arbitrary: i csi)
  case Nil
  then show ?case by simp
next
  case (Cons f fs)
  show ?case
  proof (cases "sf = f")
    case True
    have "\<And>idx' c. registered (AddField E f idx' tags c) (Name f)"
      by (rule AddField_adds)
    with True Cons.prems(2) show ?thesis
      by (auto simp: Let_def split: prod.splits intro!: parse_keeps)
  next
    case False
    with Cons.prems have "sf \<in> set fs" by simp
    from Cons.IH [OF this Cons.prems(2)] show ?thesis
      by (simp add: Let_def split: prod.splits)
  qed
qed

text \<open>
  In the cache path every public field of a struct type is a key of the table, embedded or
  not, tagged or not: \<open>parseStruct\<close> calls \<open>AddField\<close> before it looks at \<open>Anonymous\<close>.
\<close>

lemma parseStruct_registers_public:
  "sf \<in> set fs \<Longrightarrow> isPublic (Name sf) \<Longrightarrow>
   registered (parseStruct E (TStruct n fs) idx csi tags) (Name sf)"
  by (simp add: parseFields_registers)

text \<open>In \<open>doStruct\<close> an embedded field without a tag name is not recorded.\<close>

lemma recordedTag_embedded:
  "Anonymous field \<Longrightarrow> getTag field tags = [] \<Longrightarrow> recordedTag field tags = None"
  by (simp add: recordedTag_def)

text \<open>
  Claim C2, at \<open>type Base struct { ID int }\<close>, \<open>type Outer struct { Base; Name string }\<close>.
  The claim holds of \<open>doStruct\<close>, which records nothing for the untagged embedded \<open>Base\<close>. The
  cache path registers \<open>Base\<close> as a bindable field of its own (a primary descriptor at index
  path \<open>[0]\<close>), next to the promoted \<open>ID\<close> at \<open>[0, 0]\<close>.
\<close>

theorem parseStruct_registers_embedded:
  "map lastFuzzKey (fieldConvertInfos (freshBuild exEnv exOuter '''')) = [''Base'', ''ID'', ''Name'']
   \<and> fieldPaths (freshBuild exEnv exOuter '''') = [[0], [0, 0], [1]]
   \<and> map_option isField (GetFieldInfo (freshBuild exEnv exOuter '''') ''Base'') = Some True
   \<and> recordedTag (StructField ''Base'' exBase [] True) (priorityTagArrayOf exEnv '''') = None"
  by code_simp

text \<open>
  The duplicate that \<open>AddField\<close> is written for, \<open>type Twice struct { First; Second }\<close> with
  an \<open>ID\<close> in each: one descriptor for \<open>ID\<close>, at the first path, and the second path in its
  list. In a \<open>Twice\<close> the descriptor's path leads to the \<open>ID\<close> of \<open>First\<close> (address 0) and its
  duplicate to the \<open>ID\<close> of \<open>Second\<close> (address 2).
\<close>

lemma parseStruct_duplicate:
  "map lastFuzzKey (fieldConvertInfos (freshBuild exEnv exTwice '''')) = [''First'', ''ID'', ''Second'']
   \<and> fieldPaths (freshBuild exEnv exTwice '''') = [[0], [0, 0], [1]]
   \<and> duplicatePaths (freshBuild exEnv exTwice '''') = [[], [[1, 0]], []]
   \<and> map_option addr (fst (getFieldReflectValue (arrays (freshBuild exEnv exTwice ''''))
         (bases (freshBuild exEnv exTwice '''') ! 1) \<lparr>addr = 4, rtype = exTwice\<rparr> exTwiceHeap))
       = Some 0
   \<and> map_option addr (fst (getOtherFieldReflectValue (arrays (freshBuild exEnv exTwice ''''))
         (bases (freshBuild exEnv exTwice '''') ! 1) \<lparr>addr = 4, rtype = exTwice\<rparr> 0 exTwiceHeap))
       = Some 2"
  by code_simp

text \<open>
  Claim C6, at \<open>type Shadow struct { Uid int `json:"ID"`; First; Second }\<close>. \<open>AddField\<close> looks
  the declared name up in the table of all match keys, tag names included. The tag name \<open>ID\<close>
  of \<open>Uid\<close> is there when the first \<open>ID\<close> arrives, so no descriptor is made for \<open>ID\<close>: both
  index paths go to the duplicate list of the descriptor of \<open>Uid\<close>, and the key \<open>ID\<close> leads to
  \<open>Uid\<close>. In a \<open>Shadow\<close> the duplicates of \<open>Uid\<close> (address 0) are the two \<open>ID\<close> fields
  (addresses 1 and 3).
\<close>

theorem parseStruct_duplicate_under_tag_key:
  "map lastFuzzKey (fieldConvertInfos (freshBuild exEnv exShadow '''')) = [''Uid'', ''First'', ''Second'']
   \<and> fieldPaths (freshBuild exEnv exShadow '''') = [[0], [1], [2]]
   \<and> duplicatePaths (freshBuild exEnv exShadow '''') = [[[1, 0], [2, 0]], [], []]
   \<and> map_option lastFuzzKey (GetFieldInfo (freshBuild exEnv exShadow '''') ''ID'') = Some ''Uid''
   \<and> map_option addr (fst (getFieldReflectValue (arrays (freshBuild exEnv exShadow ''''))
         (bases (freshBuild exEnv exShadow '''') ! 0) \<lparr>addr = 5, rtype = exShadow\<rparr> exShadowHeap))
       = Some 0
   \<and> map_option addr (fst (getOtherFieldReflectValue (arrays (freshBuild exEnv exShadow ''''))
         (bases (freshBuild exEnv exShadow '''') ! 0) \<lparr>addr = 5, rtype = exShadow\<rparr> 0 exShadowHeap))
       = Some 1
   \<and> map_option addr (fst (getOtherFieldReflectValue (arrays (freshBuild exEnv exShadow ''''))
         (bases (freshBuild exEnv exShadow '''') ! 0) \<lparr>addr = 5, rtype = exShadow\<rparr> 1 exShadowHeap))
       = Some 3"
  by code_simp

text \<open>
  Index paths that share a backing array. At \<open>type Deep struct { L1 }\<close> the path handed down
  to \<open>L3\<close> has length 3 and capacity 4, so the \<open>append\<close> for \<open>P\<close> and the \<open>append\<close> for \<open>Q\<close> write
  the same entry of the same array: the path stored for \<open>P\<close> reads \<open>[0, 0, 0, 1]\<close> in the end,
  which is the path of \<open>Q\<close>. With a runtime that grows a slice by one entry only, the path of
  \<open>P\<close> stays \<open>[0, 0, 0, 0]\<close>.
\<close>

lemma parseStruct_deep_paths_shared:
  "fieldPaths (freshBuild exEnv exDeep '''')
     = [[0], [0, 0], [0, 0, 0], [0, 0, 0, 1], [0, 0, 0, 1]]
   \<and> map lastFuzzKey (fieldConvertInfos (freshBuild exEnv exDeep ''''))
       = [''L1'', ''L2'', ''L3'', ''P'', ''Q'']
   \<and> fieldPaths (freshBuild (exEnv\<lparr>growslice := Suc\<rparr>) exDeep '''')
       = [[0], [0, 0], [0, 0, 0], [0, 0, 0, 0], [0, 0, 0, 1]]"
  by code_simp

section \<open>Properties of the cache\<close>

lemma getCachedStructInfo_miss:
  "Kind t = Struct \<Longrightarrow> C t = None \<Longrightarrow>
   getCachedStructInfo E C t tg = (Some (freshBuild E t tg), C(t \<mapsto> freshBuild E t tg))"
  by (simp add: getCachedStructInfo_def getCachedConvertStructInfo_def
      setCachedConvertStructInfo_def freshBuild_def Let_def)

lemma getCachedStructInfo_hit:
  "Kind t = Struct \<Longrightarrow> C t = Some info \<Longrightarrow> getCachedStructInfo E C t tg = (Some info, C)"
  by (simp add: getCachedStructInfo_def getCachedConvertStructInfo_def)

lemma fst_requests_Cons:
  "fst (requests E C ((t, tg) # rs)) =
     fst (getCachedStructInfo E C t tg) # fst (requests E (snd (getCachedStructInfo E C t tg)) rs)"
  by (simp split: prod.splits)

text \<open>
  The invariant of a run: every entry of the cache is the fresh build of its type for some
  priority tag, \<open>g\<close> of the type. A request is answered from the entry when there is one and
  with the build for the first priority tag requested for its type otherwise.
\<close>

lemma requests_general:
  assumes "\<forall>(t, tg) \<in> set rs. Kind t = Struct"
    and "\<forall>t info. C t = Some info \<longrightarrow> info = freshBuild E t (g t)"
  shows "fst (requests E C rs) =
         map (\<lambda>(t, tg). Some (freshBuild E t
                (case C t of Some _ \<Rightarrow> g t | None \<Rightarrow> the (map_of rs t)))) rs"
  using assms
proof (induction rs arbitrary: C g)
  case Nil
  then show ?case by simp
next
  case (Cons r rs)
  obtain t tg where r: "r = (t, tg)" by (cases r)
  from Cons.prems r have st: "Kind t = Struct" by simp
  have rest: "\<forall>(t, tg) \<in> set rs. Kind t = Struct" using Cons.prems(1) by simp
  show ?case
  proof (cases "C t")
    case None
    let ?C = "C(t \<mapsto> freshBuild E t tg)"
    let ?g = "g(t := tg)"
    have inv: "\<forall>t' info. ?C t' = Some info \<longrightarrow> info = freshBuild E t' (?g t')"
      using Cons.prems(2) by auto
    have ih: "fst (requests E ?C rs) =
        map (\<lambda>(t', tg'). Some (freshBuild E t'
               (case ?C t' of Some _ \<Rightarrow> ?g t' | None \<Rightarrow> the (map_of rs t')))) rs"
      by (rule Cons.IH [OF rest inv])
    have same: "\<And>t'. (case ?C t' of Some _ \<Rightarrow> ?g t' | None \<Rightarrow> the (map_of rs t'))
        = (case C t' of Some _ \<Rightarrow> g t' | None \<Rightarrow> the (map_of (r # rs) t'))"
      using None r by (auto split: option.splits)
    have "fst (requests E C (r # rs)) = Some (freshBuild E t tg) # fst (requests E ?C rs)"
      using None st unfolding r fst_requests_Cons by (simp add: getCachedStructInfo_miss)
    also have "\<dots> = Some (freshBuild E t tg) #
        map (\<lambda>(t', tg'). Some (freshBuild E t'
               (case C t' of Some _ \<Rightarrow> g t' | None \<Rightarrow> the (map_of (r # rs) t')))) rs"
      unfolding ih same ..
    finally show ?thesis using None r by simp
  next
    case (Some info)
    have ih: "fst (requests E C rs) =
        map (\<lambda>(t', tg'). Some (freshBuild E t'
               (case C t' of Some _ \<Rightarrow> g t' | None \<Rightarrow> the (map_of rs t')))) rs"
      by (rule Cons.IH [OF rest Cons.prems(2)])
    have same: "\<And>t'. (case C t' of Some _ \<Rightarrow> g t' | None \<Rightarrow> the (map_of rs t'))
        = (case C t' of Some _ \<Rightarrow> g t' | None \<Rightarrow> the (map_of (r # rs) t'))"
      using Some r by (auto split: option.splits)
    from Some Cons.prems(2) have info: "info = freshBuild E t (g t)" by simp
    have "fst (requests E C (r # rs)) = Some info # fst (requests E C rs)"
      using Some st unfolding r fst_requests_Cons by (simp add: getCachedStructInfo_hit)
    also have "\<dots> = Some info #
        map (\<lambda>(t', tg'). Some (freshBuild E t'
               (case C t' of Some _ \<Rightarrow> g t' | None \<Rightarrow> the (map_of (r # rs) t')))) rs"
      unfolding ih same ..
    finally show ?thesis using Some r info by simp
  qed
qed

text \<open>
  Claim C1, as amended. From the empty cache, every request for a struct type is answered
  with the fresh build for that type and the priority tag of the \<^emph>\<open>first\<close> request made for the
  type (\<open>map_of\<close> finds the first pair of a key): on a miss that is the requested priority tag,
  on a hit the priority tag of the request is not looked at.
\<close>

theorem requests_first_tag:
  assumes "\<forall>(t, tg) \<in> set rs. Kind t = Struct"
  shows "fst (requests E Map.empty rs) =
         map (\<lambda>(t, tg). Some (freshBuild E t (the (map_of rs t)))) rs"
  using requests_general [OF assms, of Map.empty E "\<lambda>t. []"] by simp

theorem requests_first_tag_witness:
  "Kind exTagged = Struct
   \<and> fst (requests exEnv Map.empty [(exTagged, ''a''), (exTagged, ''b'')])
       = [Some (freshBuild exEnv exTagged ''a''), Some (freshBuild exEnv exTagged ''a'')]"
proof -
  have k: "Kind exTagged = Struct" by (simp add: exTagged_def)
  then have "\<forall>(t, tg) \<in> set [(exTagged, ''a''), (exTagged, ''b'')]. Kind t = Struct" by simp
  from requests_first_tag [OF this, of exEnv] k show ?thesis by simp
qed

text \<open>
  Claim C1 as stated fails at \<open>type Tagged struct { A string `a:"x" b:"y"` }\<close>: after a
  request with the priority tag \<open>a\<close>, a request with the priority tag \<open>b\<close> is answered from the
  cache with the match keys \<open>x, A\<close>, where a fresh build for \<open>b\<close> has \<open>y, A\<close>.
\<close>

theorem getCachedStructInfo_stale_tag:
  "fst (getCachedStructInfo exEnv
          (snd (getCachedStructInfo exEnv Map.empty exTagged ''a'')) exTagged ''b'')
     \<noteq> Some (freshBuild exEnv exTagged ''b'')"
proof -
  have a: "map priorityTagAndFieldName (bases (freshBuild exEnv exTagged ''a'')) = [[''x'', ''A'']]"
    by code_simp
  have b: "map priorityTagAndFieldName (bases (freshBuild exEnv exTagged ''b'')) = [[''y'', ''A'']]"
    by code_simp
  have k: "Kind exTagged = Struct" by (simp add: exTagged_def)
  have "fst (getCachedStructInfo exEnv
          (snd (getCachedStructInfo exEnv Map.empty exTagged ''a'')) exTagged ''b'')
        = Some (freshBuild exEnv exTagged ''a'')"
    using k by (simp add: getCachedStructInfo_miss getCachedStructInfo_hit)
  moreover have "freshBuild exEnv exTagged ''a'' \<noteq> freshBuild exEnv exTagged ''b''"
    using a b by auto
  ultimately show ?thesis by simp
qed

section \<open>Properties of the binder\<close>



text \<open>
  Claim C3, at two inputs. First \<open>type Pair struct { A string; B string }\<close>, the source
  \<open>{"b": "x"}\<close> and the override \<open>{"b": "A"}\<close>: the key \<open>b\<close> is bound to \<open>A\<close> by the override, the
  loop marks \<open>field.tag\<close> (that is \<open>A\<close>) as used instead of \<open>b\<close>, and \<open>b\<close> also satisfies the
  fuzzy match of \<open>B\<close>, in either order of the range. Second
  \<open>type Accounts struct { UserName string; Username string }\<close> and the source
  \<open>{"UserName": "x"}\<close>: when the range visits \<open>UserName\<close> first, its exact match consumes the
  key and \<open>Username\<close> stays empty; when it visits \<open>Username\<close> first, the key is not consumed
  yet, satisfies the fuzzy match, and then the exact match of \<open>UserName\<close> as well.
\<close>

theorem doStruct_key_used_twice:
  "doStruct exEnv exWorld (AMap [(''b'', AString ''x'')])
      (Iface (TPtr exPair) (Some 2)) [(''b'', ''A'')] [] exUserHeap
     = (None, [CValue (AString ''x''), CValue (AString ''x''), CStruct [0, 1]])
   \<and> doStruct exEnv exWorldRev (AMap [(''b'', AString ''x'')])
        (Iface (TPtr exPair) (Some 2)) [(''b'', ''A'')] [] exUserHeap
       = (None, [CValue (AString ''x''), CValue (AString ''x''), CStruct [0, 1]])
   \<and> doStruct exEnv exWorld (AMap [(''UserName'', AString ''x'')])
        (Iface (TPtr exAccounts) (Some 2)) [] [] exUserHeap
       = (None, [CValue (AString ''x''), CValue ANil, CStruct [0, 1]])
   \<and> doStruct exEnv exWorldRev (AMap [(''UserName'', AString ''x'')])
        (Iface (TPtr exAccounts) (Some 2)) [] [] exUserHeap
       = (None, [CValue (AString ''x''), CValue (AString ''x''), CStruct [0, 1]])"
  by code_simp

text \<open>
  The specification's own example of consumption holds: \<open>Name\<close> without tag, \<open>Info\<close> with the
  tag \<open>name\<close>, the source \<open>{"Name": "A", "name": "B"}\<close>; both are exact matches.
\<close>

lemma doStruct_exact_matches:
  "doStruct exEnv exWorld (AMap [(''Name'', AString ''A''), (''name'', AString ''B'')])
      (Iface (TPtr (TStruct ''main.Tagged2''
         [StructField ''Name'' (TBasic ''string'') [] False,
          StructField ''Info'' (TBasic ''string'') [(''json'', ''name'')] False])) (Some 2))
      [] [] exUserHeap
   = (None, [CValue (AString ''A''), CValue (AString ''B''), CStruct [0, 1]])"
  by code_simp

text \<open>The deferred reset does nothing while a panic is under way: \<open>err\<close> is still \<open>nil\<close>.\<close>

lemma resetDefer_Panic: "resetDefer pointerReflectValue (Panic x, h) = (Panic x, h)"
  by (simp add: resetDefer_def)

lemma resetDefer_error:
  "resetDefer pointerReflectValue (Return (Some err), h)
     = (Return (Some err), resetPointer pointerReflectValue h)"
  by (simp add: resetDefer_def)

text \<open>
  For a \<open>**struct\<close> the reset writes \<open>nil\<close> to the caller's pointer; for a \<open>reflect.Value\<close> of
  a pointer (an embedded \<open>*struct\<close> field), \<open>pointerReflectValue.Elem()\<close> is the struct that was
  just allocated, and the reset zeroes that struct.
\<close>

lemma resetPointer_Iface: "resetPointer (Iface (TPtr (TPtr t)) (Some a)) h = writeCell h a (CPtr None)"
  by (simp add: resetPointer_def)

lemma resetPointer_Reflect:
  "ElemOf r h = Some e \<Longrightarrow> resetPointer (Reflect r) h = setZero (rtype e) (addr e) h"
  by (simp add: resetPointer_def)

text \<open>
  Where the claim holds: a \<open>**Inner\<close> whose conversion fails with an error that is returned.
\<close>

lemma doStruct_reset_to_nil:
  "doStruct exEnv exWorldError (AMap [(''X'', AInt 1)])
      (Iface (TPtr (TPtr exInner)) (Some 0)) [] [] [CPtr None]
   = (Some (PlainError ''bad value''), [CPtr None, CValue ANil, CStruct [1]])"
  by code_simp

text \<open>
  Claim C4, at two inputs. First a \<open>Holder\<close> with the embedded \<open>*Inner\<close> \<open>nil\<close> and the source
  \<open>{"X": 1}\<close>, where \<open>UnmarshalValue\<close> of \<open>*Bad\<close> returns an error: the call returns the error,
  and the embedded pointer (address 0) still points to the struct allocated for it, zeroed.
  Second a \<open>**User\<close> whose pointer is \<open>nil\<close>, where \<open>UnmarshalValue\<close> of \<open>*User\<close> panics: the
  call returns the error made from the panic, and the caller's pointer (address 0) still
  points to the allocated \<open>User\<close>.
\<close>

theorem doStruct_pointer_not_reset:
  "doStruct exEnv exWorldError (AMap [(''X'', AInt 1)])
      (Iface (TPtr exHolder) (Some 1)) [] [] exHolderHeap
     = (Some (PlainError ''bad value''), [CPtr (Some 3), CStruct [0], CValue ANil, CStruct [2]])
   \<and> doStruct exEnv exWorldPanic (AMap [(''UserName'', AString ''x'')])
        (Iface (TPtr (TPtr exUser)) (Some 0)) [] [] [CPtr None]
       = (Some (NewCodef CodeInternalPanic ''%+v'' [''boom'']),
          [CPtr (Some 3), CValue ANil, CValue ANil, CStruct [1, 2]])"
  by code_simp


lemma doStruct_recovers:
  assumes "params \<noteq> ANil" and "pointer \<noteq> NilPointer"
    and "doConvertWithJsonCheck W params pointer h = ((False, None), h1)"
    and "doStructBody E W params pointer m tg h1 = (Panic y, h2)"
  shows "doStruct E W params pointer m tg h = recoverPanic (Panic y, h2)"
  using assms by simp




text \<open>
  The same happens without any method of the user's, in the collaborators of the examples,
  where the scalar conversion panics on a cell of a struct type: the fallback, given a number
  for the struct \<open>X\<close>, panics in \<open>Convert\<close>.
\<close>

lemma doStruct_fallback_panic_no_method:
  "doStruct exEnv exWorld (AMap [(''X'', AInt 1)]) (Iface (TPtr exWrap) (Some 2)) [] [] exWrapHeap
     = (Some (NewCodef CodeInternalPanic ''%+v''
          [''reflect.Value.Convert: value cannot be converted'']), exWrapHeap)"
  by code_simp

text \<open>A source map nested under \<open>X\<close> is bound by the fallback, through \<open>doStruct\<close> again.\<close>

lemma doStruct_nested:
  "doStruct exEnv exWorld (AMap [(''X'', AMap [(''N'', AInt 1)])])
      (Iface (TPtr exWrap) (Some 2)) [] [] exWrapHeap
   = (None, [CValue (AInt 1), CStruct [0], CStruct [1]])"
  by code_simp

text \<open>
  Claim C10. With a \<open>nil\<close> source \<open>doStruct\<close> returns \<open>nil\<close> and leaves the heap as it was,
  whatever the destination; with a source that is not \<open>nil\<close> and a \<open>nil\<close> destination it
  returns an invalid-parameter error, again with the heap as it was.
\<close>

theorem doStruct_nil_source:
  "doStruct E W ANil pointer m tg h = (None, h)
   \<and> (params \<noteq> ANil \<longrightarrow>
        doStruct E W params NilPointer m tg h
          = (Some (NewCode CodeInvalidParameter ''object pointer cannot be nil''), h))"
  by simp

theorem doStruct_nil_source_witness:
  "doStruct exEnv exWorld ANil (Iface (TPtr exUser) (Some 2)) [] [] exUserHeap = (None, exUserHeap)
   \<and> AInt 1 \<noteq> ANil
   \<and> doStruct exEnv exWorld (AInt 1) NilPointer [] [] exUserHeap
       = (Some (NewCode CodeInvalidParameter ''object pointer cannot be nil''), exUserHeap)"
  using doStruct_nil_source [of exEnv exWorld "Iface (TPtr exUser) (Some 2)" "[]" "[]" exUserHeap "AInt 1"]
  by simp

text \<open>
  A typed \<open>nil\<close> pointer is refused as well, once the JSON check has passed the source on.
\<close>

lemma doStruct_typed_nil_pointer:
  assumes "params \<noteq> ANil" and "Kind t = Ptr"
    and "doConvertWithJsonCheck W params (Iface t None) h = ((False, None), h1)"
  shows "doStruct E W params (Iface t None) m tg h
         = (Some (NewCode CodeInvalidParameter ''destination pointer cannot be nil''), h1)"
  using assms by (simp add: recoverPanic_def)

end
